theory Spec2Isabelle
  imports Complex_Main "HOL-Library.Multiset"
begin

section \<open>Data model (shared/schema.ts)\<close>

text \<open>
  Primary keys are \<open>varchar\<close> columns filled by \<open>gen_random_uuid()\<close>; a timestamp is
  the stored value, in microseconds since the epoch. A nullable column is an \<open>option\<close>.
  The field names are the column names of the schema, prefixed by the table they belong
  to.
\<close>

text \<open>A JavaScript \<open>number\<close>: the finite values (every finite double is a rational) and
  the three non-finite ones.\<close>

datatype number = Finite rat | NaN | PosInfinity | NegInfinity

record job =
  job_id :: string
  job_title :: string
  job_department :: string
  job_location :: string
  job_employmentType :: string
  job_description :: string
  job_requirements :: "string list"
  job_responsibilities :: string
  job_salaryRange :: "string option"
  job_status :: string
  job_createdAt :: int

record candidate =
  cand_id :: string
  cand_name :: string
  cand_email :: string
  cand_phone :: "string option"
  cand_resumeUrl :: "string option"
  cand_resumeText :: "string option"
  cand_skills :: "string list option"
  cand_experience :: "string option"
  cand_education :: "string option"
  cand_linkedinUrl :: "string option"
  cand_portfolioUrl :: "string option"
  cand_createdAt :: int

text \<open>\<open>MatchAnalysis\<close> and \<open>ResumeAnalysis\<close> of gemini.ts.\<close>

record match_analysis =
  score :: number
  matchedSkills :: "string list"
  missingSkills :: "string list"
  reasoning :: string

record resume_analysis =
  skills :: "string list"
  experience :: string
  education :: string
  summary :: string

record application =
  app_id :: string
  app_jobId :: string
  app_candidateId :: string
  app_status :: string
  app_matchScore :: "int option"
  app_aiAnalysis :: "match_analysis option"
  app_appliedAt :: int
  app_updatedAt :: int
  app_notes :: "string option"

record interview =
  int_id :: string
  int_applicationId :: string
  int_scheduledAt :: int
  int_duration :: int
  int_interviewerName :: "string option"
  int_interviewerEmail :: "string option"
  int_meetingLink :: "string option"
  int_notes :: "string option"
  int_status :: string
  int_createdAt :: int

text \<open>The database: one list of rows per table, in insertion order.\<close>

record store =
  jobs :: "job list"
  candidates :: "candidate list"
  applications :: "application list"
  interviews :: "interview list"

text \<open>\<open>InsertCandidate\<close> and \<open>InsertApplication\<close>: the row without the generated
  columns. \<open>ia_status\<close> may be left out (the column default is \<open>applied\<close>);
  \<open>ia_matchScore\<close> is the JavaScript value handed to the driver.\<close>

record insert_candidate =
  ic_name :: string
  ic_email :: string
  ic_phone :: "string option"
  ic_resumeUrl :: "string option"
  ic_resumeText :: "string option"
  ic_skills :: "string list option"
  ic_experience :: "string option"
  ic_education :: "string option"
  ic_linkedinUrl :: "string option"
  ic_portfolioUrl :: "string option"

record insert_application =
  ia_jobId :: string
  ia_candidateId :: string
  ia_status :: "string option"
  ia_matchScore :: "number option"
  ia_aiAnalysis :: "match_analysis option"
  ia_notes :: "string option"

section \<open>Outcomes of calls that may throw\<close>

datatype 'a outcome = Throws | Returns 'a

text \<open>What a statement of the database can be refused for: a duplicate primary key or
  a duplicate of the unique \<open>email\<close> column, a reference to a missing row, a value the
  \<open>integer\<close> column cannot hold, a string that is no text of the database.\<close>

datatype db_error = UniqueViolation | ForeignKeyViolation | InvalidInteger | InvalidText

datatype response =
    UploadCreated candidate application resume_analysis
  | StatusUpdated application
  | ErrorResponse nat string
  | DatabaseError db_error

section \<open>DatabaseStorage (server/storage.ts)\<close>

text \<open>A string is text of the database (a \<open>text\<close>, \<open>varchar\<close> or \<open>jsonb\<close> value, or a
  parameter compared with one) when it holds no character U+0000.\<close>

definition pg_text :: "string \<Rightarrow> bool" where
  "pg_text s = (CHR 0x00 \<notin> set s)"

definition pg_opt_text :: "string option \<Rightarrow> bool" where
  "pg_opt_text v = (case v of None \<Rightarrow> True | Some s \<Rightarrow> pg_text s)"

text \<open>A statement with the parameter \<open>p\<close> that would return \<open>r\<close>: the database refuses
  it when \<open>p\<close> is no text.\<close>

definition pg_query :: "string \<Rightarrow> 'a \<Rightarrow> db_error + 'a" where
  "pg_query p r = (if pg_text p then Inr r else Inl InvalidText)"

text \<open>\<open>const [row] = await db.select()...where(eq(col, v)); return row || undefined\<close>:
  the first matching row. These are the rows the lookups find; a handler runs a lookup
  through \<open>pg_query\<close>.\<close>

definition getJobById :: "store \<Rightarrow> string \<Rightarrow> job option" where
  "getJobById st i = find (\<lambda>j. job_id j = i) (jobs st)"

definition getCandidateById :: "store \<Rightarrow> string \<Rightarrow> candidate option" where
  "getCandidateById st i = find (\<lambda>c. cand_id c = i) (candidates st)"

definition getCandidateByEmail :: "store \<Rightarrow> string \<Rightarrow> candidate option" where
  "getCandidateByEmail st e = find (\<lambda>c. cand_email c = e) (candidates st)"

definition getApplicationById :: "store \<Rightarrow> string \<Rightarrow> application option" where
  "getApplicationById st i = find (\<lambda>a. app_id a = i) (applications st)"

text \<open>The \<open>text\<close> and \<open>text[]\<close> columns of a candidate row.\<close>

definition candidate_text :: "insert_candidate \<Rightarrow> bool" where
  "candidate_text ic =
     (pg_text (ic_name ic) \<and> pg_text (ic_email ic) \<and> pg_opt_text (ic_phone ic)
      \<and> pg_opt_text (ic_resumeUrl ic) \<and> pg_opt_text (ic_resumeText ic)
      \<and> (case ic_skills ic of None \<Rightarrow> True | Some xs \<Rightarrow> list_all pg_text xs)
      \<and> pg_opt_text (ic_experience ic) \<and> pg_opt_text (ic_education ic)
      \<and> pg_opt_text (ic_linkedinUrl ic) \<and> pg_opt_text (ic_portfolioUrl ic))"

text \<open>\<open>db.insert(candidates).values(insertCandidate).returning()\<close>. The generated id
  \<open>uuid\<close> and the clock reading \<open>now\<close> of \<open>defaultNow()\<close> are inputs. The values must be
  text; the primary key and the \<open>unique()\<close> email column refuse a duplicate.\<close>

definition createCandidate ::
  "store \<Rightarrow> insert_candidate \<Rightarrow> string \<Rightarrow> int \<Rightarrow> db_error + (candidate \<times> store)" where
  "createCandidate st ic uuid now =
     (if \<not> candidate_text ic then Inl InvalidText
      else if uuid \<in> set (map cand_id (candidates st))
         \<or> ic_email ic \<in> set (map cand_email (candidates st))
      then Inl UniqueViolation
      else
        let c = \<lparr> cand_id = uuid, cand_name = ic_name ic, cand_email = ic_email ic,
                  cand_phone = ic_phone ic, cand_resumeUrl = ic_resumeUrl ic,
                  cand_resumeText = ic_resumeText ic, cand_skills = ic_skills ic,
                  cand_experience = ic_experience ic, cand_education = ic_education ic,
                  cand_linkedinUrl = ic_linkedinUrl ic, cand_portfolioUrl = ic_portfolioUrl ic,
                  cand_createdAt = now \<rparr>
        in Inr (c, st\<lparr>candidates := candidates st @ [c]\<rparr>))"

text \<open>The \<open>integer("match_score")\<close> column: a 32-bit signed integer. The server
  refuses a value that is not an integer of that range.\<close>

definition pg_integer :: "number \<Rightarrow> int option" where
  "pg_integer n =
     (case n of
        Finite q \<Rightarrow>
          (if of_int \<lfloor>q\<rfloor> = q \<and> - 2147483648 \<le> \<lfloor>q\<rfloor> \<and> \<lfloor>q\<rfloor> \<le> 2147483647
           then Some \<lfloor>q\<rfloor> else None)
      | _ \<Rightarrow> None)"

text \<open>The \<open>jsonb\<close> column \<open>ai_analysis\<close> holds the match analysis as JSON; its strings
  must be text.\<close>

definition match_analysis_text :: "match_analysis \<Rightarrow> bool" where
  "match_analysis_text m =
     (list_all pg_text (matchedSkills m) \<and> list_all pg_text (missingSkills m)
      \<and> pg_text (reasoning m))"

text \<open>The \<open>text\<close> and \<open>jsonb\<close> values of an application row. The \<open>job_id\<close> and
  \<open>candidate_id\<close> values are checked as foreign keys: a stored id is text.\<close>

definition application_text :: "insert_application \<Rightarrow> bool" where
  "application_text ia =
     (pg_opt_text (ia_status ia) \<and> pg_opt_text (ia_notes ia)
      \<and> (case ia_aiAnalysis ia of None \<Rightarrow> True | Some m \<Rightarrow> match_analysis_text m))"

text \<open>\<open>db.insert(applications).values(insertApplication).returning()\<close>. \<open>job_id\<close>
  and \<open>candidate_id\<close> are foreign keys.\<close>

definition createApplication ::
  "store \<Rightarrow> insert_application \<Rightarrow> string \<Rightarrow> int \<Rightarrow> db_error + (application \<times> store)" where
  "createApplication st ia uuid now =
     (case (case ia_matchScore ia of None \<Rightarrow> Some None
            | Some n \<Rightarrow> (case pg_integer n of None \<Rightarrow> None | Some k \<Rightarrow> Some (Some k))) of
        None \<Rightarrow> Inl InvalidInteger
      | Some ms \<Rightarrow>
          if \<not> application_text ia then Inl InvalidText
          else if uuid \<in> set (map app_id (applications st)) then Inl UniqueViolation
          else if ia_jobId ia \<notin> set (map job_id (jobs st))
                  \<or> ia_candidateId ia \<notin> set (map cand_id (candidates st))
          then Inl ForeignKeyViolation
          else
            let a = \<lparr> app_id = uuid, app_jobId = ia_jobId ia,
                      app_candidateId = ia_candidateId ia,
                      app_status = (case ia_status ia of None \<Rightarrow> ''applied'' | Some s \<Rightarrow> s),
                      app_matchScore = ms, app_aiAnalysis = ia_aiAnalysis ia,
                      app_appliedAt = now, app_updatedAt = now, app_notes = ia_notes ia \<rparr>
            in Inr (a, st\<lparr>applications := applications st @ [a]\<rparr>))"

text \<open>\<open>db.update(applications).set({ status, updatedAt: new Date() })
  .where(eq(applications.id, id)).returning()\<close>: every row with that id is rewritten,
  and the first rewritten row (or \<open>undefined\<close>) is returned. The database refuses the
  statement when the status or the id is no text; an id that names a row is one the
  database has stored, hence text.\<close>

definition updateApplicationStatus ::
  "store \<Rightarrow> string \<Rightarrow> string \<Rightarrow> int \<Rightarrow> db_error + (application option \<times> store)" where
  "updateApplicationStatus st i status now =
     (if \<not> pg_text status then Inl InvalidText
      else if i \<notin> set (map app_id (applications st)) \<and> \<not> pg_text i then Inl InvalidText
      else
        let apps = map (\<lambda>a. if app_id a = i
                             then a\<lparr>app_status := status, app_updatedAt := now\<rparr> else a)
                       (applications st)
        in Inr (find (\<lambda>a. app_id a = i) apps, st\<lparr>applications := apps\<rparr>))"

section \<open>PATCH /api/applications/:id/status (server/routes.ts)\<close>

text \<open>The body's \<open>status\<close> is a string; the empty string stands for a missing or
  empty field (both are falsy in \<open>if (!status)\<close>). An exception of the database reaches
  the \<open>catch\<close> (status 500).\<close>

definition transitionStatus ::
  "store \<Rightarrow> string \<Rightarrow> string \<Rightarrow> int \<Rightarrow> response \<times> store" where
  "transitionStatus st i status now =
     (if status = [] then (ErrorResponse 400 ''Status is required'', st)
      else
        (case updateApplicationStatus st i status now of
           Inl e \<Rightarrow> (DatabaseError e, st)
         | Inr (None, st') \<Rightarrow> (ErrorResponse 404 ''Application not found'', st')
         | Inr (Some a, st') \<Rightarrow> (StatusUpdated a, st')))"

text \<open>The columns of an application that a status transition must leave alone.\<close>

definition untouched_columns ::
  "application \<Rightarrow> string \<times> string \<times> string \<times> int option \<times> match_analysis option \<times> int \<times> string option" where
  "untouched_columns a =
     (app_id a, app_jobId a, app_candidateId a, app_matchScore a, app_aiAnalysis a,
      app_appliedAt a, app_notes a)"

section \<open>Resume text extraction and the AI calls (server/routes.ts, server/gemini.ts)\<close>

text \<open>\<open>extractTextFromPDF\<close> wraps the library call in \<open>try/catch\<close> and returns the
  empty string when it throws; \<open>extractTextFromDOCX\<close> has no handler. The argument is
  what the library call (\<open>pdfParse\<close>, \<open>mammoth.extractRawText\<close>) does on the file.\<close>

definition extractTextFromPDF :: "string outcome \<Rightarrow> string outcome" where
  "extractTextFromPDF lib = (case lib of Throws \<Rightarrow> Returns [] | Returns t \<Rightarrow> Returns t)"

definition extractTextFromDOCX :: "string outcome \<Rightarrow> string outcome" where
  "extractTextFromDOCX lib = lib"

text \<open>What the generative model's API does on a request: the call fails, the response
  has no text, the text is not JSON, or the text parses to a value.\<close>

datatype 'a ai_response = RequestFailed | EmptyText | MalformedJson | ParsedJson 'a

text \<open>Both functions rethrow every failure as \<open>Error("Failed to ...")\<close>. Their
  arguments only build the prompt.\<close>

definition analyzeResume :: "string \<Rightarrow> resume_analysis ai_response \<Rightarrow> resume_analysis outcome" where
  "analyzeResume resumeText resp = (case resp of ParsedJson d \<Rightarrow> Returns d | _ \<Rightarrow> Throws)"

definition matchCandidateToJob ::
  "string list \<Rightarrow> string \<Rightarrow> string list \<Rightarrow> string \<Rightarrow> match_analysis ai_response
     \<Rightarrow> match_analysis outcome" where
  "matchCandidateToJob candidateSkills candidateExperience jobRequirements jobDescription resp =
     (case resp of ParsedJson d \<Rightarrow> Returns d | _ \<Rightarrow> Throws)"

text \<open>\<open>Math.round\<close>: the nearest integer, a tie going up; the non-finite values are
  returned as they are.\<close>

definition Math_round :: "number \<Rightarrow> number" where
  "Math_round n = (case n of Finite q \<Rightarrow> Finite (of_int \<lfloor>q + 1 / 2\<rfloor>) | _ \<Rightarrow> n)"

section \<open>POST /api/candidates/upload (server/routes.ts)\<close>

text \<open>The file part of the form, as multer would store it: the name of its form field,
  the stored name, its size in bytes, and \<open>file_ext\<close>, the lower-cased extension
  (\<open>path.extname(...).toLowerCase()\<close>), which the stored name takes over from the
  original name. A missing or empty form field is the empty string.\<close>

record uploaded_file =
  file_fieldname :: string
  file_filename :: string
  file_ext :: string
  file_size :: nat

record upload_request =
  req_upload :: "uploaded_file option"
  req_name :: string
  req_email :: string
  req_phone :: string
  req_jobId :: string

text \<open>What the outside world does during one request: the text extraction library,
  the two AI calls, the ids and clock readings the database generates.\<close>

record upload_env =
  env_extraction :: "string outcome"
  env_analysis :: "resume_analysis ai_response"
  env_match :: "match_analysis ai_response"
  env_candidate_uuid :: string
  env_candidate_now :: int
  env_application_uuid :: string
  env_application_now :: int

definition allowedTypes :: "string list" where
  "allowedTypes = [''.pdf'', ''.docx'']"

definition fileFilter :: "string \<Rightarrow> bool" where
  "fileFilter ext = (ext \<in> set allowedTypes)"

text \<open>\<open>limits: { fileSize: 10 * 1024 * 1024 }\<close>.\<close>

definition fileSize :: nat where
  "fileSize = 10 * 1024 * 1024"

text \<open>The middleware \<open>upload.single(fieldname)\<close>, lines 22-40 and 126: it passes an error
  on (the handler does not run, the answer is 500) for a file under another field, a
  file the filter refuses, or a file larger than the limit; otherwise it leaves the file,
  if there is one, in \<open>req.file\<close>.\<close>

definition upload_single :: "string \<Rightarrow> uploaded_file option \<Rightarrow> string + uploaded_file option" where
  "upload_single fieldname part =
     (case part of
        None \<Rightarrow> Inr None
      | Some f \<Rightarrow>
          if file_fieldname f \<noteq> fieldname then Inl ''Unexpected field''
          else if \<not> fileFilter (file_ext f) then Inl ''Only PDF and DOCX files are allowed''
          else if fileSize < file_size f then Inl ''File too large''
          else Inr (Some f))"

text \<open>\<open>req.file\<close>, as the handler sees it.\<close>

definition req_file :: "upload_request \<Rightarrow> uploaded_file option" where
  "req_file req =
     (case upload_single ''resume'' (req_upload req) of Inl msg \<Rightarrow> None | Inr file \<Rightarrow> file)"

text \<open>Lines 145-154: the \<open>try\<close> around the extraction.\<close>

definition extract_resume :: "string \<Rightarrow> string outcome \<Rightarrow> string outcome" where
  "extract_resume ext lib =
     (if ext = ''.pdf'' then extractTextFromPDF lib
      else if ext = ''.docx'' then extractTextFromDOCX lib
      else Returns [])"

definition placeholder_analysis :: resume_analysis where
  "placeholder_analysis =
     \<lparr> skills = [], experience = ''Not analyzed'', education = ''Not analyzed'',
       summary = ''AI analysis unavailable'' \<rparr>"

text \<open>Lines 156-169: the \<open>try\<close> around \<open>analyzeResume\<close>.\<close>

definition analyse_or_placeholder :: "string \<Rightarrow> resume_analysis ai_response \<Rightarrow> resume_analysis" where
  "analyse_or_placeholder resumeText resp =
     (case analyzeResume resumeText resp of Throws \<Rightarrow> placeholder_analysis | Returns d \<Rightarrow> d)"

text \<open>Lines 173-182: the values of a new candidate.\<close>

definition candidate_values ::
  "upload_request \<Rightarrow> uploaded_file \<Rightarrow> string \<Rightarrow> resume_analysis \<Rightarrow> insert_candidate" where
  "candidate_values req f resumeText analysis =
     \<lparr> ic_name = req_name req, ic_email = req_email req,
       ic_phone = (if req_phone req = [] then None else Some (req_phone req)),
       ic_resumeUrl = Some (''/uploads/'' @ file_filename f),
       ic_resumeText = Some resumeText,
       ic_skills = Some (skills analysis),
       ic_experience = Some (experience analysis),
       ic_education = Some (education analysis),
       ic_linkedinUrl = None, ic_portfolioUrl = None \<rparr>"

text \<open>Lines 171-183: the candidate found by email at line 139, or a new one.\<close>

definition find_or_create_candidate ::
  "store \<Rightarrow> candidate option \<Rightarrow> upload_request \<Rightarrow> uploaded_file \<Rightarrow> string \<Rightarrow> resume_analysis
     \<Rightarrow> upload_env \<Rightarrow> db_error + (candidate \<times> store)" where
  "find_or_create_candidate st candidate req f resumeText analysis env =
     (case candidate of
        Some c \<Rightarrow> Inr (c, st)
      | None \<Rightarrow>
          createCandidate st (candidate_values req f resumeText analysis)
            (env_candidate_uuid env) (env_candidate_now env))"

text \<open>Lines 191-206: the \<open>try\<close> around \<open>matchCandidateToJob\<close>; the pair is
  \<open>(matchScore, aiAnalysis)\<close>.\<close>

definition match_or_null ::
  "resume_analysis \<Rightarrow> job \<Rightarrow> match_analysis ai_response
     \<Rightarrow> number option \<times> match_analysis option" where
  "match_or_null analysis j resp =
     (case matchCandidateToJob (skills analysis) (experience analysis)
             (job_requirements j) (job_description j) resp of
        Throws \<Rightarrow> (None, None)
      | Returns matchResult \<Rightarrow> (Some (Math_round (score matchResult)), Some matchResult))"

text \<open>The handler behind the middleware. An exception of the database reaches the outer
  \<open>catch\<close> (status 500).\<close>

definition upload_candidate :: "store \<Rightarrow> upload_request \<Rightarrow> upload_env \<Rightarrow> response \<times> store" where
  "upload_candidate st req env =
     (case upload_single ''resume'' (req_upload req) of
        Inl msg \<Rightarrow> (ErrorResponse 500 msg, st)
      | Inr None \<Rightarrow> (ErrorResponse 400 ''No resume file uploaded'', st)
      | Inr (Some f) \<Rightarrow>
          if req_name req = [] \<or> req_email req = [] \<or> req_jobId req = []
          then (ErrorResponse 400 ''Name, email, and job are required'', st)
          else
            (case pg_query (req_email req) (getCandidateByEmail st (req_email req)) of
               Inl e \<Rightarrow> (DatabaseError e, st)
             | Inr candidate \<Rightarrow>
            (case extract_resume (file_ext f) (env_extraction env) of
               Throws \<Rightarrow> (ErrorResponse 400 ''Failed to parse resume file'', st)
             | Returns resumeText \<Rightarrow>
                 let analysis = analyse_or_placeholder resumeText (env_analysis env) in
                 (case find_or_create_candidate st candidate req f resumeText analysis env of
                    Inl e \<Rightarrow> (DatabaseError e, st)
                  | Inr (c, st1) \<Rightarrow>
                      (case pg_query (req_jobId req) (getJobById st1 (req_jobId req)) of
                         Inl e \<Rightarrow> (DatabaseError e, st1)
                       | Inr None \<Rightarrow> (ErrorResponse 404 ''Job not found'', st1)
                       | Inr (Some j) \<Rightarrow>
                           (case match_or_null analysis j (env_match env) of
                              (matchScore, aiAnalysis) \<Rightarrow>
                                (case createApplication st1
                                        \<lparr> ia_jobId = req_jobId req, ia_candidateId = cand_id c,
                                          ia_status = Some ''applied'',
                                          ia_matchScore = matchScore,
                                          ia_aiAnalysis = aiAnalysis, ia_notes = None \<rparr>
                                        (env_application_uuid env) (env_application_now env) of
                                   Inl e \<Rightarrow> (DatabaseError e, st1)
                                 | Inr (a, st2) \<Rightarrow> (UploadCreated c a analysis, st2))))))))"

text \<open>\<open>res.status(...)\<close> of a response.\<close>

definition status_code :: "response \<Rightarrow> nat" where
  "status_code r =
     (case r of UploadCreated c a an \<Rightarrow> 201 | StatusUpdated a \<Rightarrow> 200
      | ErrorResponse n msg \<Rightarrow> n | DatabaseError e \<Rightarrow> 500)"

section \<open>Requests handled one after another\<close>

datatype request = Submit upload_request upload_env | Transition string string int

fun handle :: "store \<Rightarrow> request \<Rightarrow> response \<times> store" where
  "handle st (Submit req env) = upload_candidate st req env"
| "handle st (Transition i status now) = transitionStatus st i status now"

fun run :: "store \<Rightarrow> request list \<Rightarrow> store" where
  "run st [] = st"
| "run st (r # rs) = run (snd (handle st r)) rs"

section \<open>Ordered reads and the pipeline view\<close>

text \<open>\<open>orderBy(desc(column))\<close>: rows by falling key. The database fixes no order among
  rows with the same key; here they come in the order of the list.\<close>

fun insert_desc :: "('a \<Rightarrow> int) \<Rightarrow> 'a \<Rightarrow> 'a list \<Rightarrow> 'a list" where
  "insert_desc key x [] = [x]"
| "insert_desc key x (y # ys) =
     (if key y \<le> key x then x # y # ys else y # insert_desc key x ys)"

definition orderBy_desc :: "('a \<Rightarrow> int) \<Rightarrow> 'a list \<Rightarrow> 'a list" where
  "orderBy_desc key rows = foldr (insert_desc key) rows []"

definition getAllJobs :: "store \<Rightarrow> job list" where
  "getAllJobs st = orderBy_desc job_createdAt (jobs st)"

definition getAllCandidates :: "store \<Rightarrow> candidate list" where
  "getAllCandidates st = orderBy_desc cand_createdAt (candidates st)"

definition getAllApplications :: "store \<Rightarrow> application list" where
  "getAllApplications st = orderBy_desc app_appliedAt (applications st)"

text \<open>\<open>ApplicationWithDetails\<close> (client/src/pages/pipeline.tsx), the rows of
  GET /api/applications/pipeline.\<close>

record application_with_details =
  awd_id :: string
  awd_status :: string
  awd_matchScore :: "int option"
  awd_appliedAt :: int
  awd_candidateName :: string
  awd_candidateEmail :: string
  awd_jobTitle :: string
  awd_jobDepartment :: string

text \<open>\<open>new Map(rows.map((r) => [r.id, r]))\<close>: a later row replaces an earlier one with
  the same id. \<open>x || d\<close> on strings takes \<open>d\<close> for the empty string.\<close>

definition Map_by :: "('a \<Rightarrow> string) \<Rightarrow> 'a list \<Rightarrow> (string \<rightharpoonup> 'a)" where
  "Map_by key rows = map_of (rev (map (\<lambda>r. (key r, r)) rows))"

definition or_else :: "string \<Rightarrow> string \<Rightarrow> string" where
  "or_else x d = (if x = [] then d else x)"

definition pipeline :: "store \<Rightarrow> application_with_details list" where
  "pipeline st =
     (let jobsMap = Map_by job_id (getAllJobs st);
          candidatesMap = Map_by cand_id (getAllCandidates st)
      in map (\<lambda>app.
           \<lparr> awd_id = app_id app, awd_status = app_status app,
             awd_matchScore = app_matchScore app, awd_appliedAt = app_appliedAt app,
             awd_candidateName =
               (case candidatesMap (app_candidateId app) of
                  None \<Rightarrow> ''Unknown'' | Some c \<Rightarrow> or_else (cand_name c) ''Unknown''),
             awd_candidateEmail =
               (case candidatesMap (app_candidateId app) of
                  None \<Rightarrow> [] | Some c \<Rightarrow> cand_email c),
             awd_jobTitle =
               (case jobsMap (app_jobId app) of
                  None \<Rightarrow> ''Unknown'' | Some j \<Rightarrow> or_else (job_title j) ''Unknown''),
             awd_jobDepartment =
               (case jobsMap (app_jobId app) of
                  None \<Rightarrow> ''Unknown'' | Some j \<Rightarrow> or_else (job_department j) ''Unknown'') \<rparr>)
           (getAllApplications st))"

text \<open>The columns of the board (pipeline.tsx, lines 22-28); the \<open>color\<close> field, a list of
  CSS classes, is left out.\<close>

record status_column =
  col_key :: string
  col_label :: string

definition statusColumns :: "status_column list" where
  "statusColumns =
     [\<lparr> col_key = ''applied'', col_label = ''Applied'' \<rparr>,
      \<lparr> col_key = ''screening'', col_label = ''Screening'' \<rparr>,
      \<lparr> col_key = ''interview'', col_label = ''Interview'' \<rparr>,
      \<lparr> col_key = ''offer'', col_label = ''Offer'' \<rparr>,
      \<lparr> col_key = ''hired'', col_label = ''Hired'' \<rparr>]"

text \<open>Lines 100-103: \<open>statusColumns.reduce\<close> into a record keyed by column. The query's
  data is \<open>None\<close> while it is loading (\<open>applications?.filter(...) || []\<close>).\<close>

definition applicationsByStatus ::
  "application_with_details list option \<Rightarrow> (string \<rightharpoonup> application_with_details list)" where
  "applicationsByStatus apps =
     fold (\<lambda>column acc.
             acc(col_key column \<mapsto>
                   (case apps of None \<Rightarrow> []
                    | Some xs \<Rightarrow> filter (\<lambda>app. awd_status app = col_key column) xs)))
          statusColumns Map.empty"

text \<open>Lines 143-144: the board shows, column by column,
  \<open>applicationsByStatus[column.key]\<close> (always present for a column's own key).\<close>

definition displayed_groups ::
  "application_with_details list option \<Rightarrow> (string \<times> application_with_details list) list" where
  "displayed_groups apps =
     map (\<lambda>column. (col_key column,
                     (case applicationsByStatus apps (col_key column) of
                        None \<Rightarrow> [] | Some g \<Rightarrow> g)))
         statusColumns"

section \<open>Candidates with their applications, ranked (server/storage.ts)\<close>














section \<open>The status literals and example data\<close>

definition statuses :: "string list" where
  "statuses = [''applied'', ''screening'', ''interview'', ''offer'', ''hired'', ''rejected'']"

definition example_job :: "string \<Rightarrow> job" where
  "example_job i =
     \<lparr> job_id = i, job_title = ''Engineer'', job_department = ''Research'',
       job_location = ''Remote'', job_employmentType = ''Full-time'',
       job_description = ''Builds things'', job_requirements = [''TypeScript''],
       job_responsibilities = ''Ships'', job_salaryRange = None, job_status = ''active'',
       job_createdAt = 0 \<rparr>"

definition example_candidate :: "string \<Rightarrow> int \<Rightarrow> candidate" where
  "example_candidate i t =
     \<lparr> cand_id = i, cand_name = ''Candidate '' @ i, cand_email = i @ ''@x.com'',
       cand_phone = None, cand_resumeUrl = None, cand_resumeText = None,
       cand_skills = None, cand_experience = None, cand_education = None,
       cand_linkedinUrl = None, cand_portfolioUrl = None, cand_createdAt = t \<rparr>"

definition example_application ::
  "string \<Rightarrow> string \<Rightarrow> string \<Rightarrow> string \<Rightarrow> int option \<Rightarrow> application" where
  "example_application i j c s m =
     \<lparr> app_id = i, app_jobId = j, app_candidateId = c, app_status = s,
       app_matchScore = m, app_aiAnalysis = None, app_appliedAt = 1,
       app_updatedAt = 1, app_notes = None \<rparr>"

definition two_jobs :: store where
  "two_jobs = \<lparr> jobs = [example_job ''J1'', example_job ''J2''], candidates = [],
                applications = [], interviews = [] \<rparr>"

definition one_application :: store where
  "one_application =
     \<lparr> jobs = [example_job ''J1''], candidates = [example_candidate ''c1'' 0],
       applications = [example_application ''a1'' ''J1'' ''c1'' ''applied'' (Some 85)],
       interviews = [] \<rparr>"

definition jane :: "string \<Rightarrow> string \<Rightarrow> upload_request" where
  "jane ext jobId =
     \<lparr> req_upload = Some \<lparr> file_fieldname = ''resume'', file_filename = ''17-42'' @ ext,
                           file_ext = ext, file_size = 2048 \<rparr>,
       req_name = ''Jane Doe'', req_email = ''jane@x.com'', req_phone = [],
       req_jobId = jobId \<rparr>"

definition world ::
  "string outcome \<Rightarrow> resume_analysis ai_response \<Rightarrow> match_analysis ai_response
     \<Rightarrow> string \<Rightarrow> string \<Rightarrow> int \<Rightarrow> upload_env" where
  "world ex an ma cid aid t =
     \<lparr> env_extraction = ex, env_analysis = an, env_match = ma,
       env_candidate_uuid = cid, env_candidate_now = t,
       env_application_uuid = aid, env_application_now = t \<rparr>"

definition scored :: "rat \<Rightarrow> match_analysis ai_response" where
  "scored q = ParsedJson \<lparr> score = Finite q, matchedSkills = [''TypeScript''],
                 missingSkills = [], reasoning = ''fits'' \<rparr>"

definition analysed :: "resume_analysis ai_response" where
  "analysed = ParsedJson \<lparr> skills = [''TypeScript''], experience = ''5 years'',
                 education = ''BSc'', summary = ''Engineer'' \<rparr>"

definition jane_twice :: "request list" where
  "jane_twice =
     [Submit (jane ''.pdf'' ''J1'') (world (Returns ''cv'') analysed (scored 85) ''c1'' ''a1'' 5),
      Submit (jane ''.docx'' ''J2'') (world (Returns ''cv'') analysed (scored 40) ''c2'' ''a2'' 6)]"

definition jane_candidate :: candidate where
  "jane_candidate =
     \<lparr> cand_id = ''c1'', cand_name = ''Jane Doe'', cand_email = ''jane@x.com'',
       cand_phone = None, cand_resumeUrl = Some ''/uploads/17-42.pdf'',
       cand_resumeText = Some ''cv'', cand_skills = Some [''TypeScript''],
       cand_experience = Some ''5 years'', cand_education = Some ''BSc'',
       cand_linkedinUrl = None, cand_portfolioUrl = None, cand_createdAt = 5 \<rparr>"

definition hire_after_screening :: "request list" where
  "hire_after_screening =
     [Transition ''a1'' ''screening'' 7,
      Submit (jane ''.pdf'' ''J1'') (world (Returns ''cv'') analysed (scored 85) ''c2'' ''a2'' 8),
      Transition ''a1'' ''hired'' 9]"

definition rejected_application :: store where
  "rejected_application =
     \<lparr> jobs = [example_job ''J1''], candidates = [example_candidate ''c1'' 0],
       applications = [example_application ''a1'' ''J1'' ''c1'' ''rejected'' None],
       interviews = [] \<rparr>"


definition board_row :: "string \<Rightarrow> string \<Rightarrow> application_with_details" where
  "board_row i s =
     \<lparr> awd_id = i, awd_status = s, awd_matchScore = None, awd_appliedAt = 1,
       awd_candidateName = ''Candidate c1'', awd_candidateEmail = ''c1@x.com'',
       awd_jobTitle = ''Engineer'', awd_jobDepartment = ''Research'' \<rparr>"

definition jane_file :: "string \<Rightarrow> uploaded_file" where
  "jane_file ext =
     \<lparr> file_fieldname = ''resume'', file_filename = ''17-42'' @ ext, file_ext = ext,
       file_size = 2048 \<rparr>"


definition requested_statuses :: "request list \<Rightarrow> string list" where
  "requested_statuses rs =
     concat (map (\<lambda>r. case r of Submit req env \<Rightarrow> [] | Transition i s now \<Rightarrow> [s]) rs)"

lemmas example_defs = two_jobs_def one_application_def example_job_def example_candidate_def
  example_application_def jane_def world_def scored_def analysed_def

lemmas upload_defs = upload_candidate_def upload_single_def fileSize_def fileFilter_def
  allowedTypes_def pg_query_def pg_text_def pg_opt_text_def extract_resume_def
  extractTextFromPDF_def extractTextFromDOCX_def analyse_or_placeholder_def analyzeResume_def
  placeholder_analysis_def find_or_create_candidate_def candidate_values_def
  candidate_text_def getCandidateByEmail_def createCandidate_def getJobById_def
  match_or_null_def matchCandidateToJob_def Math_round_def createApplication_def
  application_text_def match_analysis_text_def pg_integer_def status_code_def Let_def


section \<open>Lemmas about the store and the upload handler\<close>

lemma floor_rat_numeral_divide [simp]:
  "\<lfloor>(numeral a :: rat) / numeral b\<rfloor> = numeral a div numeral b"
  by (metis floor_divide_of_int_eq of_int_numeral)

lemma find_None_not_in:
  "find (\<lambda>x. f x = v) xs = None \<longleftrightarrow> v \<notin> set (map f xs)"
  by (induction xs) auto

lemma find_Some_in:
  "find (\<lambda>x. f x = v) xs = Some y \<Longrightarrow> y \<in> set xs \<and> f y = v"
  by (induction xs) (auto split: if_splits)

lemma find_append_new:
  "find P (xs @ [c]) = (case find P xs of None \<Rightarrow> (if P c then Some c else None) | Some x \<Rightarrow> Some x)"
  by (induction xs) auto

lemma find_distinct_key:
  "distinct (map f xs) \<Longrightarrow> y \<in> set xs \<Longrightarrow> find (\<lambda>x. f x = f y) xs = Some y"
  by (induction xs) (auto simp add: rev_image_eqI)

lemma req_file_stored:
  "req_file req = Some f \<Longrightarrow> upload_single ''resume'' (req_upload req) = Inr (Some f)"
  by (cases "upload_single ''resume'' (req_upload req)") (simp_all add: req_file_def)

lemma pg_text_placeholder [simp]:
  "list_all pg_text (skills placeholder_analysis)"
  "pg_text (experience placeholder_analysis)"
  "pg_text (education placeholder_analysis)"
  by (simp_all add: placeholder_analysis_def pg_text_def)

lemma pg_query_Inr: "pg_text p \<Longrightarrow> pg_query p r = Inr r"
  by (simp add: pg_query_def)

lemma createCandidate_Inr:
  assumes "createCandidate st ic uuid now = Inr (c, st1)"
  shows "st1 = st\<lparr>candidates := candidates st @ [c]\<rparr>
       \<and> cand_id c = uuid \<and> cand_email c = ic_email ic
       \<and> ic_email ic \<notin> set (map cand_email (candidates st))
       \<and> uuid \<notin> set (map cand_id (candidates st))"
  using assms
  by (auto simp add: createCandidate_def Let_def split: if_splits)

lemma createCandidate_inserts:
  assumes "candidate_text ic"
    and "uuid \<notin> set (map cand_id (candidates st))"
    and "ic_email ic \<notin> set (map cand_email (candidates st))"
  shows "\<exists>c. createCandidate st ic uuid now = Inr (c, st\<lparr>candidates := candidates st @ [c]\<rparr>)
             \<and> cand_id c = uuid \<and> cand_name c = ic_name ic \<and> cand_email c = ic_email ic
             \<and> cand_phone c = ic_phone ic \<and> cand_resumeUrl c = ic_resumeUrl ic
             \<and> cand_resumeText c = ic_resumeText ic \<and> cand_skills c = ic_skills ic
             \<and> cand_experience c = ic_experience ic \<and> cand_education c = ic_education ic
             \<and> cand_createdAt c = now"
  using assms by (simp add: createCandidate_def Let_def)

lemma createApplication_inserts:
  assumes "case ia_matchScore ia of None \<Rightarrow> ms = None | Some n \<Rightarrow> ms \<noteq> None \<and> pg_integer n = ms"
    and "application_text ia"
    and "uuid \<notin> set (map app_id (applications st))"
    and "ia_jobId ia \<in> set (map job_id (jobs st))"
    and "ia_candidateId ia \<in> set (map cand_id (candidates st))"
  shows "\<exists>a. createApplication st ia uuid now = Inr (a, st\<lparr>applications := applications st @ [a]\<rparr>)
             \<and> app_id a = uuid \<and> app_jobId a = ia_jobId ia
             \<and> app_candidateId a = ia_candidateId ia
             \<and> app_status a = (case ia_status ia of None \<Rightarrow> ''applied'' | Some s \<Rightarrow> s)
             \<and> app_matchScore a = ms \<and> app_aiAnalysis a = ia_aiAnalysis ia
             \<and> app_appliedAt a = now \<and> app_updatedAt a = now"
  using assms
  by (auto simp add: createApplication_def Let_def split: option.splits)

lemma createApplication_Inr:
  assumes "createApplication st ia uuid now = Inr (a, st2)"
  shows "st2 = st\<lparr>applications := applications st @ [a]\<rparr>
       \<and> app_id a = uuid
       \<and> uuid \<notin> set (map app_id (applications st))
       \<and> app_jobId a = ia_jobId ia
       \<and> app_candidateId a = ia_candidateId ia
       \<and> app_status a = (case ia_status ia of None \<Rightarrow> ''applied'' | Some s \<Rightarrow> s)
       \<and> app_matchScore a = (case ia_matchScore ia of None \<Rightarrow> None | Some n \<Rightarrow> pg_integer n)
       \<and> (\<forall>n. ia_matchScore ia = Some n \<longrightarrow> pg_integer n \<noteq> None)
       \<and> app_aiAnalysis a = ia_aiAnalysis ia"
  using assms
  by (auto simp add: createApplication_def Let_def split: option.splits if_splits)

lemma find_or_create_Inr:
  assumes "find_or_create_candidate st cand req f rtext an env = Inr (c, st1)"
  shows "(cand = Some c \<and> st1 = st)
       \<or> (cand = None
          \<and> st1 = st\<lparr>candidates := candidates st @ [c]\<rparr>
          \<and> cand_email c = req_email req
          \<and> req_email req \<notin> set (map cand_email (candidates st)))"
proof (cases cand)
  case None
  with assms createCandidate_Inr [of st "candidate_values req f rtext an"
      "env_candidate_uuid env" "env_candidate_now env" c st1]
  show ?thesis
    by (simp add: find_or_create_candidate_def candidate_values_def)
next
  case (Some c0)
  with assms show ?thesis by (simp add: find_or_create_candidate_def)
qed

lemma match_or_null_eq:
  "match_or_null an j resp =
     (case resp of ParsedJson m \<Rightarrow> (Some (Math_round (score m)), Some m) | _ \<Rightarrow> (None, None))"
  by (simp add: match_or_null_def matchCandidateToJob_def split: ai_response.splits)

text \<open>What a submission can do to the tables.\<close>

lemma upload_candidate_tables:
  "jobs (snd (upload_candidate st req env)) = jobs st
   \<and> interviews (snd (upload_candidate st req env)) = interviews st
   \<and> (candidates (snd (upload_candidate st req env)) = candidates st
      \<or> (\<exists>c. candidates (snd (upload_candidate st req env)) = candidates st @ [c]
            \<and> cand_email c = req_email req
            \<and> req_email req \<notin> set (map cand_email (candidates st))))
   \<and> (applications (snd (upload_candidate st req env)) = applications st
      \<or> (\<exists>a. applications (snd (upload_candidate st req env)) = applications st @ [a]
            \<and> app_status a = ''applied''
            \<and> (\<forall>m. env_match env = ParsedJson m
                    \<longrightarrow> pg_integer (Math_round (score m)) \<noteq> None)
            \<and> app_matchScore a
                 = (case env_match env of
                      ParsedJson m \<Rightarrow> pg_integer (Math_round (score m))
                    | _ \<Rightarrow> None)))"
  (is "?P (snd (upload_candidate st req env))")
proof -
  have same: "?P st" by simp
  show ?thesis
  proof (cases "upload_single ''resume'' (req_upload req)")
    case (Inl msg)
    then have "snd (upload_candidate st req env) = st" by (simp add: upload_candidate_def)
    with same show ?thesis by simp
  next
    case (Inr upl)
    show ?thesis
    proof (cases upl)
      case None
      with Inr have "snd (upload_candidate st req env) = st" by (simp add: upload_candidate_def)
      with same show ?thesis by simp
    next
      case (Some f)
      note stored = Inr [unfolded Some]
      show ?thesis
      proof (cases "req_name req \<noteq> [] \<and> req_email req \<noteq> [] \<and> req_jobId req \<noteq> []
                      \<and> pg_text (req_email req)")
        case False
        with stored have "snd (upload_candidate st req env) = st"
          by (auto simp add: upload_candidate_def pg_query_def)
        with same show ?thesis by simp
      next
        case ok: True
        then have q: "pg_query (req_email req) r = Inr r" for r :: "candidate option"
          by (simp add: pg_query_def)
        show ?thesis
        proof (cases "extract_resume (file_ext f) (env_extraction env)")
          case Throws
          with stored ok q have "snd (upload_candidate st req env) = st"
            by (simp add: upload_candidate_def)
          with same show ?thesis by simp
        next
          case (Returns rtext)
          define an where "an = analyse_or_placeholder rtext (env_analysis env)"
          define cand where "cand = getCandidateByEmail st (req_email req)"
          show ?thesis
          proof (cases "find_or_create_candidate st cand req f rtext an env")
            case (Inl e)
            with stored ok q Returns have "snd (upload_candidate st req env) = st"
              by (simp add: upload_candidate_def an_def cand_def)
            with same show ?thesis by simp
          next
            case (Inr p)
            obtain c st1 where p: "p = (c, st1)" by (cases p)
            note foc = find_or_create_Inr [OF Inr [unfolded p]]
            have st1: "?P st1"
              using foc by auto
            have apps1: "applications st1 = applications st"
              using foc by auto
            show ?thesis
            proof (cases "pg_query (req_jobId req) (getJobById st1 (req_jobId req))")
              case (Inl e)
              with stored ok q Returns Inr p have "snd (upload_candidate st req env) = st1"
                by (simp add: upload_candidate_def an_def cand_def)
              with st1 show ?thesis by simp
            next
              case found: (Inr job)
              show ?thesis
              proof (cases job)
                case None
                with stored ok q Returns Inr p found
                have "snd (upload_candidate st req env) = st1"
                  by (simp add: upload_candidate_def an_def cand_def)
                with st1 show ?thesis by simp
              next
                case (Some j)
                obtain ms ai where m: "match_or_null an j (env_match env) = (ms, ai)"
                  by (cases "match_or_null an j (env_match env)")
                have ms: "ms = (case env_match env of
                            ParsedJson m \<Rightarrow> Some (Math_round (score m)) | _ \<Rightarrow> None)"
                  using m by (auto simp add: match_or_null_eq split: ai_response.splits)
                let ?ia = "\<lparr> ia_jobId = req_jobId req, ia_candidateId = cand_id c,
                        ia_status = Some ''applied'', ia_matchScore = ms,
                        ia_aiAnalysis = ai, ia_notes = None \<rparr>"
                show ?thesis
                proof (cases "createApplication st1 ?ia (env_application_uuid env)
                          (env_application_now env)")
                  case (Inl e)
                  with stored ok q Returns Inr p found Some m
                  have "snd (upload_candidate st req env) = st1"
                    by (simp add: upload_candidate_def an_def cand_def)
                  with st1 show ?thesis by simp
                next
                  case inr: (Inr r)
                  obtain a st2 where r: "r = (a, st2)" by (cases r)
                  note ca = createApplication_Inr [OF inr [unfolded r]]
                  from stored ok q Returns Inr p found Some m inr r
                  have up: "snd (upload_candidate st req env) = st2"
                    by (simp add: upload_candidate_def an_def cand_def)
                  have score: "app_matchScore a
                    = (case env_match env of
                         ParsedJson m \<Rightarrow> pg_integer (Math_round (score m))
                       | _ \<Rightarrow> None)"
                    using ca ms by (simp split: ai_response.splits)
                  have storable: "\<forall>m. env_match env = ParsedJson m
                       \<longrightarrow> pg_integer (Math_round (score m)) \<noteq> None"
                    using ca ms by (simp split: ai_response.splits)
                  have st2: "st2 = st1\<lparr>applications := applications st1 @ [a]\<rparr>"
                    "app_status a = ''applied''"
                    using ca by simp_all
                  have "applications st2 = applications st @ [a]"
                    using st2 apps1 by simp
                  moreover have "jobs st2 = jobs st" "interviews st2 = interviews st"
                    "candidates st2 = candidates st1"
                    using st2 st1 by simp_all
                  ultimately show ?thesis
                    using up st1 st2(2) score storable by auto
                qed
              qed
            qed
          qed
        qed
      qed
    qed
  qed
qed

text \<open>A submission that runs to its end.\<close>

lemma upload_candidate_created:
  assumes upl: "req_file req = Some f"
    and fields: "req_name req \<noteq> []" "req_email req \<noteq> []" "req_jobId req \<noteq> []"
    and ptext: "pg_text (req_email req)" "pg_text (req_jobId req)"
    and extr: "extract_resume (file_ext f) (env_extraction env) = Returns rtext"
    and job: "req_jobId req \<in> set (map job_id (jobs st))"
    and fresh_a: "env_application_uuid env \<notin> set (map app_id (applications st))"
    and fresh_c: "req_email req \<notin> set (map cand_email (candidates st))
                  \<Longrightarrow> env_candidate_uuid env \<notin> set (map cand_id (candidates st))
                    \<and> candidate_text (candidate_values req f rtext
                          (analyse_or_placeholder rtext (env_analysis env)))"
    and storable: "\<And>m. env_match env = ParsedJson m
                  \<Longrightarrow> pg_integer (Math_round (score m)) \<noteq> None \<and> match_analysis_text m"
  shows "\<exists>c a st1.
           upload_candidate st req env
             = (UploadCreated c a (analyse_or_placeholder rtext (env_analysis env)),
                st1\<lparr>applications := applications st1 @ [a]\<rparr>)
         \<and> ((getCandidateByEmail st (req_email req) = Some c \<and> st1 = st)
            \<or> (getCandidateByEmail st (req_email req) = None
               \<and> st1 = st\<lparr>candidates := candidates st @ [c]\<rparr>
               \<and> cand_id c = env_candidate_uuid env
               \<and> cand_name c = req_name req
               \<and> cand_email c = req_email req
               \<and> cand_resumeUrl c = Some (''/uploads/'' @ file_filename f)
               \<and> cand_resumeText c = Some rtext
               \<and> cand_skills c
                   = Some (skills (analyse_or_placeholder rtext (env_analysis env)))
               \<and> cand_experience c
                   = Some (experience (analyse_or_placeholder rtext (env_analysis env)))
               \<and> cand_education c
                   = Some (education (analyse_or_placeholder rtext (env_analysis env)))))
         \<and> app_id a = env_application_uuid env
         \<and> app_jobId a = req_jobId req
         \<and> app_candidateId a = cand_id c
         \<and> app_status a = ''applied''
         \<and> app_matchScore a
             = (case env_match env of
                  ParsedJson m \<Rightarrow> pg_integer (Math_round (score m)) | _ \<Rightarrow> None)
         \<and> app_aiAnalysis a
             = (case env_match env of ParsedJson m \<Rightarrow> Some m | _ \<Rightarrow> None)"
proof -
  define an where "an = analyse_or_placeholder rtext (env_analysis env)"
  define cand where "cand = getCandidateByEmail st (req_email req)"
  have "\<exists>c st1. find_or_create_candidate st cand req f rtext an env = Inr (c, st1)
          \<and> cand_id c \<in> set (map cand_id (candidates st1))
          \<and> jobs st1 = jobs st \<and> applications st1 = applications st
          \<and> ((cand = Some c \<and> st1 = st)
            \<or> (cand = None
               \<and> st1 = st\<lparr>candidates := candidates st @ [c]\<rparr>
               \<and> cand_id c = env_candidate_uuid env
               \<and> cand_name c = req_name req
               \<and> cand_email c = req_email req
               \<and> cand_resumeUrl c = Some (''/uploads/'' @ file_filename f)
               \<and> cand_resumeText c = Some rtext
               \<and> cand_skills c = Some (skills an)
               \<and> cand_experience c = Some (experience an)
               \<and> cand_education c = Some (education an)))"
  proof (cases cand)
    case None
    then have new: "req_email req \<notin> set (map cand_email (candidates st))"
      using find_None_not_in [of cand_email "req_email req" "candidates st"]
      by (simp add: cand_def getCandidateByEmail_def)
    note fc = fresh_c [OF new, folded an_def]
    have "ic_email (candidate_values req f rtext an) \<notin> set (map cand_email (candidates st))"
      using new by (simp add: candidate_values_def)
    from createCandidate_inserts [OF conjunct2 [OF fc] conjunct1 [OF fc] this,
        of "env_candidate_now env"]
    obtain c where "createCandidate st (candidate_values req f rtext an)
               (env_candidate_uuid env) (env_candidate_now env)
               = Inr (c, st\<lparr>candidates := candidates st @ [c]\<rparr>)"
             "cand_id c = env_candidate_uuid env"
             "cand_name c = ic_name (candidate_values req f rtext an)"
             "cand_email c = ic_email (candidate_values req f rtext an)"
             "cand_resumeUrl c = ic_resumeUrl (candidate_values req f rtext an)"
             "cand_resumeText c = ic_resumeText (candidate_values req f rtext an)"
             "cand_skills c = ic_skills (candidate_values req f rtext an)"
             "cand_experience c = ic_experience (candidate_values req f rtext an)"
             "cand_education c = ic_education (candidate_values req f rtext an)"
      by blast
    with None show ?thesis
      by (simp add: find_or_create_candidate_def candidate_values_def)
  next
    case (Some c0)
    then have "c0 \<in> set (candidates st)"
      using find_Some_in [of cand_email "req_email req" "candidates st" c0]
      by (simp add: cand_def getCandidateByEmail_def)
    with Some show ?thesis by (simp add: find_or_create_candidate_def)
  qed
  then obtain c st1 where
    foc: "find_or_create_candidate st cand req f rtext an env = Inr (c, st1)"
    and c_in: "cand_id c \<in> set (map cand_id (candidates st1))"
    and same: "jobs st1 = jobs st" "applications st1 = applications st"
    and cand: "(cand = Some c \<and> st1 = st)
            \<or> (cand = None
               \<and> st1 = st\<lparr>candidates := candidates st @ [c]\<rparr>
               \<and> cand_id c = env_candidate_uuid env
               \<and> cand_name c = req_name req
               \<and> cand_email c = req_email req
               \<and> cand_resumeUrl c = Some (''/uploads/'' @ file_filename f)
               \<and> cand_resumeText c = Some rtext
               \<and> cand_skills c = Some (skills an)
               \<and> cand_experience c = Some (experience an)
               \<and> cand_education c = Some (education an))"
    by blast
  have j_in: "req_jobId req \<in> set (map job_id (jobs st1))"
    using job same by simp
  then obtain j where job1: "getJobById st1 (req_jobId req) = Some j"
    using find_None_not_in [of job_id "req_jobId req" "jobs st1"]
    by (cases "getJobById st1 (req_jobId req)") (auto simp add: getJobById_def)
  obtain ms ai where m: "match_or_null an j (env_match env) = (ms, ai)"
    by (cases "match_or_null an j (env_match env)")
  have ms: "ms = (case env_match env of
                    ParsedJson m \<Rightarrow> Some (Math_round (score m)) | _ \<Rightarrow> None)"
    and ai: "ai = (case env_match env of ParsedJson m \<Rightarrow> Some m | _ \<Rightarrow> None)"
    using m by (auto simp add: match_or_null_eq split: ai_response.splits)
  let ?ia = "\<lparr> ia_jobId = req_jobId req, ia_candidateId = cand_id c,
                ia_status = Some ''applied'', ia_matchScore = ms,
                ia_aiAnalysis = ai, ia_notes = None \<rparr>"
  let ?stored = "case env_match env of
                   ParsedJson m \<Rightarrow> pg_integer (Math_round (score m)) | _ \<Rightarrow> None"
  have conv: "case ia_matchScore ?ia of None \<Rightarrow> ?stored = None
              | Some n \<Rightarrow> ?stored \<noteq> None \<and> pg_integer n = ?stored"
    using ms storable by (auto split: ai_response.splits)
  have atext: "application_text ?ia"
    using ai storable
    by (auto simp add: application_text_def pg_opt_text_def pg_text_def
             split: ai_response.splits)
  from createApplication_inserts [where ia = ?ia and ms = ?stored
         and uuid = "env_application_uuid env" and st = st1
         and now = "env_application_now env", OF conv atext]
       fresh_a same j_in c_in
  obtain a where
    ca: "createApplication st1 ?ia (env_application_uuid env) (env_application_now env)
           = Inr (a, st1\<lparr>applications := applications st1 @ [a]\<rparr>)"
    and a: "app_id a = env_application_uuid env" "app_jobId a = req_jobId req"
      "app_candidateId a = cand_id c" "app_status a = ''applied''"
      "app_matchScore a = ?stored" "app_aiAnalysis a = ai"
    by auto
  have "upload_candidate st req env
          = (UploadCreated c a an, st1\<lparr>applications := applications st1 @ [a]\<rparr>)"
    using req_file_stored [OF upl] fields ptext extr foc job1 m ca
    by (simp add: upload_candidate_def an_def cand_def pg_query_def)
  with cand a ai show ?thesis
    unfolding an_def cand_def by blast
qed

lemma req_file_jane [simp]:
  "req_file (jane ext jobId) = (if ext = ''.pdf'' \<or> ext = ''.docx'' then Some (jane_file ext) else None)"
  by (simp add: req_file_def upload_single_def jane_def jane_file_def fileFilter_def
        allowedTypes_def fileSize_def)

section \<open>Submission survives a failing AI call\<close>

text \<open>
  C1 (amended). A submission whose file multer accepts (field \<open>resume\<close>, extension
  \<open>.pdf\<close> or \<open>.docx\<close>, at most 10 MiB), with non-empty name, email and job id that
  are text the database accepts (no U+0000), whose text extraction does not throw, whose
  job id is the id of a stored job, whose generated ids are unused, whose new candidate
  (when the email is new) has only text the database accepts, and whose match result (when
  the matcher returns one) has a rounded score that fits the integer column and text the
  database accepts, answers 201: the application is appended with status \<open>applied\<close>
  for a candidate of that email, who is appended when the email is new and is a stored one
  otherwise. When \<open>analyzeResume\<close> throws, the analysis is the placeholder and a new
  candidate carries the placeholder fields; when \<open>matchCandidateToJob\<close> throws, the
  application has neither a match score nor an AI analysis.
\<close>

theorem upload_survives_ai_failure:
  assumes upl: "req_file req = Some f"
    and fields: "req_name req \<noteq> []" "req_email req \<noteq> []" "req_jobId req \<noteq> []"
    and ptext: "pg_text (req_email req)" "pg_text (req_jobId req)"
    and extr: "extract_resume (file_ext f) (env_extraction env) = Returns rtext"
    and job: "j \<in> set (jobs st)" "job_id j = req_jobId req"
    and fresh_a: "env_application_uuid env \<notin> set (map app_id (applications st))"
    and fresh_c: "req_email req \<notin> set (map cand_email (candidates st))
                  \<Longrightarrow> env_candidate_uuid env \<notin> set (map cand_id (candidates st))
                    \<and> candidate_text (candidate_values req f rtext
                          (analyse_or_placeholder rtext (env_analysis env)))"
    and storable: "\<And>m. env_match env = ParsedJson m
                  \<Longrightarrow> pg_integer (Math_round (score m)) \<noteq> None \<and> match_analysis_text m"
  shows "\<exists>c a an st'.
           upload_candidate st req env = (UploadCreated c a an, st')
         \<and> applications st' = applications st @ [a]
         \<and> app_jobId a = req_jobId req
         \<and> app_candidateId a = cand_id c
         \<and> app_status a = ''applied''
         \<and> c \<in> set (candidates st')
         \<and> cand_email c = req_email req
         \<and> candidates st'
             = (if req_email req \<in> set (map cand_email (candidates st))
                then candidates st else candidates st @ [c])
         \<and> (analyzeResume rtext (env_analysis env) = Throws
              \<longrightarrow> an = placeholder_analysis
                \<and> (req_email req \<notin> set (map cand_email (candidates st))
                     \<longrightarrow> cand_skills c = Some [] \<and> cand_experience c = Some ''Not analyzed''
                       \<and> cand_education c = Some ''Not analyzed''))
         \<and> (matchCandidateToJob (skills an) (experience an) (job_requirements j)
               (job_description j) (env_match env) = Throws
              \<longrightarrow> app_matchScore a = None \<and> app_aiAnalysis a = None)"
proof -
  have job_in: "req_jobId req \<in> set (map job_id (jobs st))"
    using job by force
  from upload_candidate_created [OF upl fields ptext extr job_in fresh_a fresh_c storable]
  obtain c a st1 where
    up: "upload_candidate st req env
             = (UploadCreated c a (analyse_or_placeholder rtext (env_analysis env)),
                st1\<lparr>applications := applications st1 @ [a]\<rparr>)"
    and cand: "(getCandidateByEmail st (req_email req) = Some c \<and> st1 = st)
            \<or> (getCandidateByEmail st (req_email req) = None
               \<and> st1 = st\<lparr>candidates := candidates st @ [c]\<rparr>
               \<and> cand_id c = env_candidate_uuid env
               \<and> cand_name c = req_name req
               \<and> cand_email c = req_email req
               \<and> cand_resumeUrl c = Some (''/uploads/'' @ file_filename f)
               \<and> cand_resumeText c = Some rtext
               \<and> cand_skills c
                   = Some (skills (analyse_or_placeholder rtext (env_analysis env)))
               \<and> cand_experience c
                   = Some (experience (analyse_or_placeholder rtext (env_analysis env)))
               \<and> cand_education c
                   = Some (education (analyse_or_placeholder rtext (env_analysis env))))"
    and a: "app_jobId a = req_jobId req" "app_candidateId a = cand_id c"
      "app_status a = ''applied''"
      "app_matchScore a
             = (case env_match env of
                  ParsedJson m \<Rightarrow> pg_integer (Math_round (score m)) | _ \<Rightarrow> None)"
      "app_aiAnalysis a
             = (case env_match env of ParsedJson m \<Rightarrow> Some m | _ \<Rightarrow> None)"
    by blast
  let ?an = "analyse_or_placeholder rtext (env_analysis env)"
  let ?st' = "st1\<lparr>applications := applications st1 @ [a]\<rparr>"
  let ?known = "req_email req \<in> set (map cand_email (candidates st))"
  note none = find_None_not_in [of cand_email "req_email req" "candidates st"]
  note some = find_Some_in [of cand_email "req_email req" "candidates st" c]
  have apps: "applications ?st' = applications st @ [a]"
    using cand by auto
  have c_in: "c \<in> set (candidates ?st')" and c_email: "cand_email c = req_email req"
    using cand some by (auto simp add: getCandidateByEmail_def)
  have cands: "candidates ?st' = (if ?known then candidates st else candidates st @ [c])"
  proof (cases "getCandidateByEmail st (req_email req)")
    case None
    with cand none show ?thesis by (auto simp add: getCandidateByEmail_def)
  next
    case (Some c0)
    with cand none show ?thesis by (auto simp add: getCandidateByEmail_def)
  qed
  have an: "analyzeResume rtext (env_analysis env) = Throws
              \<longrightarrow> ?an = placeholder_analysis
                \<and> (\<not> ?known
                     \<longrightarrow> cand_skills c = Some [] \<and> cand_experience c = Some ''Not analyzed''
                       \<and> cand_education c = Some ''Not analyzed'')"
    using cand none
    by (auto simp add: analyse_or_placeholder_def placeholder_analysis_def
          getCandidateByEmail_def)
  have ma: "matchCandidateToJob (skills ?an) (experience ?an) (job_requirements j)
               (job_description j) (env_match env) = Throws
              \<longrightarrow> app_matchScore a = None \<and> app_aiAnalysis a = None"
    using a by (auto simp add: matchCandidateToJob_def split: ai_response.splits)
  from up apps a(1-3) c_in c_email cands an ma
  have body: "upload_candidate st req env = (UploadCreated c a ?an, ?st')
         \<and> applications ?st' = applications st @ [a]
         \<and> app_jobId a = req_jobId req
         \<and> app_candidateId a = cand_id c
         \<and> app_status a = ''applied''
         \<and> c \<in> set (candidates ?st')
         \<and> cand_email c = req_email req
         \<and> candidates ?st' = (if ?known then candidates st else candidates st @ [c])
         \<and> (analyzeResume rtext (env_analysis env) = Throws
              \<longrightarrow> ?an = placeholder_analysis
                \<and> (\<not> ?known
                     \<longrightarrow> cand_skills c = Some [] \<and> cand_experience c = Some ''Not analyzed''
                       \<and> cand_education c = Some ''Not analyzed''))
         \<and> (matchCandidateToJob (skills ?an) (experience ?an) (job_requirements j)
               (job_description j) (env_match env) = Throws
              \<longrightarrow> app_matchScore a = None \<and> app_aiAnalysis a = None)"
    by simp
  show ?thesis
    by (rule exI [of _ c], rule exI [of _ a], rule exI [of _ ?an], rule exI [of _ ?st'],
        rule body)
qed

theorem upload_survives_ai_failure_witness:
  "status_code (fst (upload_candidate two_jobs (jane ''.pdf'' ''J1'')
       (world (Returns ''cv'') RequestFailed EmptyText ''c1'' ''a1'' 5))) = 201
   \<and> map app_matchScore (applications (snd (upload_candidate two_jobs (jane ''.pdf'' ''J1'')
       (world (Returns ''cv'') RequestFailed EmptyText ''c1'' ''a1'' 5)))) = [None]
   \<and> map cand_experience (candidates (snd (upload_candidate two_jobs (jane ''.pdf'' ''J1'')
       (world (Returns ''cv'') RequestFailed EmptyText ''c1'' ''a1'' 5))))
       = [Some ''Not analyzed'']"
proof -
  let ?req = "jane ''.pdf'' ''J1''"
  let ?env = "world (Returns ''cv'') RequestFailed EmptyText ''c1'' ''a1'' 5"
  let ?f = "jane_file ''.pdf''"
  have h1: "req_file ?req = Some ?f" by simp
  have h3: "req_name ?req \<noteq> []" "req_email ?req \<noteq> []" "req_jobId ?req \<noteq> []"
    by (simp_all add: jane_def)
  have ht: "pg_text (req_email ?req)" "pg_text (req_jobId ?req)"
    by (simp_all add: jane_def pg_text_def)
  have h4: "extract_resume (file_ext ?f) (env_extraction ?env) = Returns ''cv''"
    by (simp add: extract_resume_def extractTextFromPDF_def world_def jane_file_def)
  have h5: "example_job ''J1'' \<in> set (jobs two_jobs)"
    "job_id (example_job ''J1'') = req_jobId ?req"
    by (simp_all add: example_defs)
  have h6: "env_application_uuid ?env \<notin> set (map app_id (applications two_jobs))"
    by (simp add: example_defs)
  have h7: "env_candidate_uuid ?env \<notin> set (map cand_id (candidates two_jobs))
      \<and> candidate_text (candidate_values ?req ?f ''cv''
            (analyse_or_placeholder ''cv'' (env_analysis ?env)))"
    by (simp add: example_defs jane_file_def candidate_text_def candidate_values_def
          analyse_or_placeholder_def analyzeResume_def placeholder_analysis_def
          pg_text_def pg_opt_text_def)
  have h8: "pg_integer (Math_round (score m)) \<noteq> None \<and> match_analysis_text m"
    if "env_match ?env = ParsedJson m" for m
    using that by (simp add: world_def)
  have th: "analyzeResume ''cv'' (env_analysis ?env) = Throws"
    by (simp add: analyzeResume_def world_def)
  have cn: "req_email ?req \<notin> set (map cand_email (candidates two_jobs))"
    by (simp add: example_defs)
  have mt: "matchCandidateToJob s e r d (env_match ?env) = Throws" for s e r d
    by (simp add: matchCandidateToJob_def world_def)
  from upload_survives_ai_failure [OF h1 h3 ht h4 h5 h6 h7 h8] th cn mt
  obtain c a an st' where
    "upload_candidate two_jobs ?req ?env = (UploadCreated c a an, st')"
    "applications st' = applications two_jobs @ [a]"
    "candidates st' = candidates two_jobs @ [c]"
    "cand_experience c = Some ''Not analyzed''"
    "app_matchScore a = None"
    by auto
  then show ?thesis
    by (simp add: status_code_def two_jobs_def)
qed

text \<open>Without the conditions on the extraction, the size of the file and the text of
  the fields the statement fails. The job exists and the extension is a supported one in
  each of these requests: a DOCX file that the extraction library cannot read is answered
  400; a PDF file of 11 MiB is refused by multer (500); a name containing U+0000 is
  refused by the database when the candidate is inserted (500). The store is unchanged in
  all three.\<close>

theorem upload_fails_with_supported_file_and_existing_job:
  "fileFilter (file_ext (jane_file ''.docx'')) \<and> fileFilter (file_ext (jane_file ''.pdf''))
   \<and> ''J1'' \<in> set (map job_id (jobs two_jobs))
   \<and> upload_candidate two_jobs (jane ''.docx'' ''J1'')
         (world Throws analysed (scored 85) ''c1'' ''a1'' 5)
       = (ErrorResponse 400 ''Failed to parse resume file'', two_jobs)
   \<and> upload_candidate two_jobs
         ((jane ''.pdf'' ''J1'')
            \<lparr>req_upload := Some ((jane_file ''.pdf'')\<lparr>file_size := 11 * 1024 * 1024\<rparr>)\<rparr>)
         (world (Returns ''cv'') analysed (scored 85) ''c1'' ''a1'' 5)
       = (ErrorResponse 500 ''File too large'', two_jobs)
   \<and> upload_candidate two_jobs
         ((jane ''.pdf'' ''J1'')\<lparr>req_name := ''Jane'' @ [CHR 0x00]\<rparr>)
         (world (Returns ''cv'') analysed (scored 85) ''c1'' ''a1'' 5)
       = (DatabaseError InvalidText, two_jobs)
   \<and> status_code (DatabaseError InvalidText) = 500"
  by (simp add: example_defs jane_file_def upload_defs)

section \<open>A submission for an unknown job leaves its new candidate behind\<close>

text \<open>
  C10 (amended). A submission that gets as far as the job lookup (file accepted by multer,
  required fields present, text extracted, the new candidate's values and the job id text
  the database accepts, candidate id unused), whose email is the email of no stored
  candidate and whose job id is the id of no stored job, is answered 404
  \<open>Job not found\<close>, and the store it leaves is the old one with a new candidate of that
  email appended.
\<close>

theorem upload_unknown_job_keeps_new_candidate:
  assumes upl: "req_file req = Some f"
    and fields: "req_name req \<noteq> []" "req_email req \<noteq> []" "req_jobId req \<noteq> []"
    and ptext: "pg_text (req_jobId req)"
    and extr: "extract_resume (file_ext f) (env_extraction env) = Returns rtext"
    and new: "req_email req \<notin> set (map cand_email (candidates st))"
    and nojob: "req_jobId req \<notin> set (map job_id (jobs st))"
    and fresh_c: "env_candidate_uuid env \<notin> set (map cand_id (candidates st))"
    and ctext: "candidate_text (candidate_values req f rtext
                   (analyse_or_placeholder rtext (env_analysis env)))"
  shows "\<exists>c. upload_candidate st req env
               = (ErrorResponse 404 ''Job not found'', st\<lparr>candidates := candidates st @ [c]\<rparr>)
             \<and> cand_email c = req_email req
             \<and> cand_name c = req_name req
             \<and> cand_id c = env_candidate_uuid env"
proof -
  define an where "an = analyse_or_placeholder rtext (env_analysis env)"
  have etext: "pg_text (req_email req)"
    using ctext by (simp add: candidate_text_def candidate_values_def)
  have none: "getCandidateByEmail st (req_email req) = None"
    using new find_None_not_in [of cand_email "req_email req" "candidates st"]
    by (simp add: getCandidateByEmail_def)
  have "ic_email (candidate_values req f rtext an) \<notin> set (map cand_email (candidates st))"
    using new by (simp add: candidate_values_def)
  from createCandidate_inserts [OF ctext [folded an_def] fresh_c this,
      of "env_candidate_now env"]
  obtain c where
    cc: "createCandidate st (candidate_values req f rtext an)
            (env_candidate_uuid env) (env_candidate_now env)
            = Inr (c, st\<lparr>candidates := candidates st @ [c]\<rparr>)"
    and c: "cand_email c = req_email req" "cand_name c = req_name req"
       "cand_id c = env_candidate_uuid env"
    by (auto simp add: candidate_values_def)
  have "getJobById (st\<lparr>candidates := candidates st @ [c]\<rparr>) (req_jobId req) = None"
    using nojob find_None_not_in [of job_id "req_jobId req" "jobs st"]
    by (simp add: getJobById_def)
  with req_file_stored [OF upl] fields ptext etext extr none cc
  have up: "upload_candidate st req env
          = (ErrorResponse 404 ''Job not found'', st\<lparr>candidates := candidates st @ [c]\<rparr>)"
    by (simp add: upload_candidate_def an_def pg_query_def find_or_create_candidate_def)
  with c show ?thesis by auto
qed

theorem upload_unknown_job_keeps_new_candidate_witness:
  "fst (upload_candidate two_jobs (jane ''.pdf'' ''J9'')
         (world (Returns ''cv'') analysed (scored 85) ''c1'' ''a1'' 5))
     = ErrorResponse 404 ''Job not found''
   \<and> map cand_email (candidates (snd (upload_candidate two_jobs (jane ''.pdf'' ''J9'')
         (world (Returns ''cv'') analysed (scored 85) ''c1'' ''a1'' 5)))) = [''jane@x.com'']
   \<and> applications (snd (upload_candidate two_jobs (jane ''.pdf'' ''J9'')
         (world (Returns ''cv'') analysed (scored 85) ''c1'' ''a1'' 5))) = []"
proof -
  let ?req = "jane ''.pdf'' ''J9''"
  let ?env = "world (Returns ''cv'') analysed (scored 85) ''c1'' ''a1'' 5"
  let ?f = "jane_file ''.pdf''"
  have h1: "req_file ?req = Some ?f" by simp
  have h3: "req_name ?req \<noteq> []" "req_email ?req \<noteq> []" "req_jobId ?req \<noteq> []"
    by (simp_all add: jane_def)
  have ht: "pg_text (req_jobId ?req)"
    by (simp add: jane_def pg_text_def)
  have h4: "extract_resume (file_ext ?f) (env_extraction ?env) = Returns ''cv''"
    by (simp add: extract_resume_def extractTextFromPDF_def world_def jane_file_def)
  have h5: "req_email ?req \<notin> set (map cand_email (candidates two_jobs))"
    by (simp add: example_defs)
  have h6: "req_jobId ?req \<notin> set (map job_id (jobs two_jobs))"
    by (simp add: example_defs)
  have h7: "env_candidate_uuid ?env \<notin> set (map cand_id (candidates two_jobs))"
    by (simp add: example_defs)
  have h8: "candidate_text (candidate_values ?req ?f ''cv''
            (analyse_or_placeholder ''cv'' (env_analysis ?env)))"
    by (simp add: example_defs jane_file_def candidate_text_def candidate_values_def
          analyse_or_placeholder_def analyzeResume_def pg_text_def pg_opt_text_def)
  from upload_unknown_job_keeps_new_candidate [OF h1 h3 ht h4 h5 h6 h7 h8]
  obtain c where
    "upload_candidate two_jobs ?req ?env
       = (ErrorResponse 404 ''Job not found'',
          two_jobs\<lparr>candidates := candidates two_jobs @ [c]\<rparr>)"
    "cand_email c = req_email ?req"
    by blast
  then show ?thesis
    by (simp add: two_jobs_def jane_def)
qed

text \<open>Without the condition on the extraction the statement fails: the email is new, the
  job id resolves to no job, the DOCX extraction throws, and the request is answered 400
  with no candidate stored.\<close>

theorem upload_unknown_job_docx_failure_keeps_no_candidate:
  "req_email (jane ''.docx'' ''J9'') \<notin> set (map cand_email (candidates two_jobs))
   \<and> req_jobId (jane ''.docx'' ''J9'') \<notin> set (map job_id (jobs two_jobs))
   \<and> upload_candidate two_jobs (jane ''.docx'' ''J9'')
         (world Throws analysed (scored 85) ''c1'' ''a1'' 5)
       = (ErrorResponse 400 ''Failed to parse resume file'', two_jobs)
   \<and> candidates two_jobs = []"
  by (simp add: example_defs upload_defs)

section \<open>Which failures abort a submission\<close>

text \<open>A failing extraction is not fatal for a PDF file: the extraction throws, and the
  request is answered 201 with an application stored and an empty resume text.\<close>

theorem upload_pdf_parse_failure_proceeds:
  "env_extraction (world Throws analysed (scored 85) ''c1'' ''a1'' 5) = Throws
   \<and> status_code (fst (upload_candidate two_jobs (jane ''.pdf'' ''J1'')
         (world Throws analysed (scored 85) ''c1'' ''a1'' 5))) = 201
   \<and> map app_jobId (applications (snd (upload_candidate two_jobs (jane ''.pdf'' ''J1'')
         (world Throws analysed (scored 85) ''c1'' ''a1'' 5)))) = [''J1'']
   \<and> map cand_resumeText (candidates (snd (upload_candidate two_jobs (jane ''.pdf'' ''J1'')
         (world Throws analysed (scored 85) ''c1'' ''a1'' 5)))) = [Some []]"
  by (simp add: example_defs upload_defs)

lemma find_or_create_candidate_env:
  "find_or_create_candidate st cand req f t an (env\<lparr>env_extraction := x\<rparr>)
     = find_or_create_candidate st cand req f t an env"
  "find_or_create_candidate st cand req f t an (env\<lparr>env_analysis := y\<rparr>)
     = find_or_create_candidate st cand req f t an env"
  by (simp_all add: find_or_create_candidate_def cong: option.case_cong)

text \<open>
  C9 (amended). For a submission with an accepted file and the required fields: a DOCX
  extraction that throws ends the request with the store unchanged, answered 400
  \<open>Failed to parse resume file\<close> (or 500 when the lookup by email, which runs before the
  extraction, is refused by the database because the email contains U+0000); a PDF
  extraction that throws is handled like an extraction that returns the empty text; an
  \<open>analyzeResume\<close> that throws is handled like one that returns the placeholder
  analysis.
\<close>

theorem extraction_failure_fatal_for_docx_only:
  assumes "req_file req = Some f" "fileFilter (file_ext f)"
    and "req_name req \<noteq> []" "req_email req \<noteq> []" "req_jobId req \<noteq> []"
  shows "(file_ext f = ''.docx'' \<and> env_extraction env = Throws
            \<longrightarrow> upload_candidate st req env
                  = (if pg_text (req_email req)
                     then ErrorResponse 400 ''Failed to parse resume file''
                     else DatabaseError InvalidText, st))
       \<and> (file_ext f = ''.pdf'' \<and> env_extraction env = Throws
            \<longrightarrow> upload_candidate st req env
                  = upload_candidate st req (env\<lparr>env_extraction := Returns []\<rparr>))
       \<and> (analyzeResume rtext (env_analysis env) = Throws
            \<longrightarrow> upload_candidate st req env
                  = upload_candidate st req
                      (env\<lparr>env_analysis := ParsedJson placeholder_analysis\<rparr>))"
proof (intro conjI impI)
  note stored = req_file_stored [OF assms(1)]
  {
    assume "file_ext f = ''.docx'' \<and> env_extraction env = Throws"
    with stored assms show "upload_candidate st req env
                  = (if pg_text (req_email req)
                     then ErrorResponse 400 ''Failed to parse resume file''
                     else DatabaseError InvalidText, st)"
      by (simp add: upload_candidate_def extract_resume_def extractTextFromDOCX_def
            pg_query_def)
  next
    assume "file_ext f = ''.pdf'' \<and> env_extraction env = Throws"
    with stored assms show "upload_candidate st req env
                  = upload_candidate st req (env\<lparr>env_extraction := Returns []\<rparr>)"
      by (simp add: upload_candidate_def extract_resume_def extractTextFromPDF_def
            find_or_create_candidate_env
            cong: option.case_cong sum.case_cong prod.case_cong)
  next
    assume "analyzeResume rtext (env_analysis env) = Throws"
    then have "analyse_or_placeholder t (env_analysis env) = placeholder_analysis
        \<and> analyse_or_placeholder t (ParsedJson placeholder_analysis) = placeholder_analysis"
      for t
      by (auto simp add: analyse_or_placeholder_def analyzeResume_def split: ai_response.splits)
    then show "upload_candidate st req env
                  = upload_candidate st req
                      (env\<lparr>env_analysis := ParsedJson placeholder_analysis\<rparr>)"
      by (simp add: upload_candidate_def find_or_create_candidate_env
            cong: option.case_cong sum.case_cong prod.case_cong outcome.case_cong if_cong)
  }
qed

theorem extraction_failure_fatal_for_docx_only_witness:
  "upload_candidate two_jobs (jane ''.docx'' ''J1'')
       (world Throws analysed (scored 85) ''c1'' ''a1'' 5)
     = (ErrorResponse 400 ''Failed to parse resume file'', two_jobs)
   \<and> status_code (fst (upload_candidate two_jobs (jane ''.pdf'' ''J1'')
         (world (Returns ''cv'') MalformedJson (scored 85) ''c1'' ''a1'' 5))) = 201
   \<and> map cand_education (candidates (snd (upload_candidate two_jobs (jane ''.pdf'' ''J1'')
         (world (Returns ''cv'') MalformedJson (scored 85) ''c1'' ''a1'' 5))))
       = [Some ''Not analyzed'']"
proof -
  let ?docx = "jane_file ''.docx''"
  let ?pdf = "jane_file ''.pdf''"
  let ?env1 = "world Throws analysed (scored 85) ''c1'' ''a1'' 5"
  let ?env2 = "world (Returns ''cv'') MalformedJson (scored 85) ''c1'' ''a1'' 5"
  have d: "req_file (jane ''.docx'' ''J1'') = Some ?docx" "fileFilter (file_ext ?docx)"
    "req_name (jane ''.docx'' ''J1'') \<noteq> []" "req_email (jane ''.docx'' ''J1'') \<noteq> []"
    "req_jobId (jane ''.docx'' ''J1'') \<noteq> []"
    by (simp_all add: jane_def jane_file_def fileFilter_def allowedTypes_def del: req_file_jane)
      (simp_all add: req_file_def upload_single_def fileFilter_def allowedTypes_def fileSize_def)
  have p: "req_file (jane ''.pdf'' ''J1'') = Some ?pdf" "fileFilter (file_ext ?pdf)"
    "req_name (jane ''.pdf'' ''J1'') \<noteq> []" "req_email (jane ''.pdf'' ''J1'') \<noteq> []"
    "req_jobId (jane ''.pdf'' ''J1'') \<noteq> []"
    by (simp_all add: jane_def jane_file_def fileFilter_def allowedTypes_def del: req_file_jane)
      (simp_all add: req_file_def upload_single_def fileFilter_def allowedTypes_def fileSize_def)
  have "file_ext ?docx = ''.docx'' \<and> env_extraction ?env1 = Throws"
    "pg_text (req_email (jane ''.docx'' ''J1''))"
    by (simp_all add: world_def jane_file_def jane_def pg_text_def)
  with extraction_failure_fatal_for_docx_only [OF d, where env = ?env1 and st = two_jobs]
  have one: "upload_candidate two_jobs (jane ''.docx'' ''J1'') ?env1
     = (ErrorResponse 400 ''Failed to parse resume file'', two_jobs)"
    by simp
  have "analyzeResume ''cv'' (env_analysis ?env2) = Throws"
    by (simp add: world_def analyzeResume_def)
  with extraction_failure_fatal_for_docx_only [OF p, where env = ?env2 and rtext = "''cv''"
          and st = two_jobs]
  have "upload_candidate two_jobs (jane ''.pdf'' ''J1'') ?env2
          = upload_candidate two_jobs (jane ''.pdf'' ''J1'')
              (?env2\<lparr>env_analysis := ParsedJson placeholder_analysis\<rparr>)"
    by blast
  then have two: "status_code (fst (upload_candidate two_jobs (jane ''.pdf'' ''J1'') ?env2)) = 201
     \<and> map cand_education (candidates (snd (upload_candidate two_jobs (jane ''.pdf'' ''J1'')
           ?env2))) = [Some ''Not analyzed'']"
    by (simp add: example_defs upload_defs)
  from one two show ?thesis by simp
qed

section \<open>Frame of a status transition\<close>

lemma updateApplicationStatus_cases:
  "updateApplicationStatus st i s now = Inl InvalidText
   \<or> updateApplicationStatus st i s now
       = Inr (find (\<lambda>a. app_id a = i)
                (map (\<lambda>a. if app_id a = i then a\<lparr>app_status := s, app_updatedAt := now\<rparr> else a)
                   (applications st)),
              st\<lparr>applications :=
                   map (\<lambda>a. if app_id a = i then a\<lparr>app_status := s, app_updatedAt := now\<rparr> else a)
                     (applications st)\<rparr>)"
  by (simp add: updateApplicationStatus_def Let_def)

lemma transitionStatus_store:
  "snd (transitionStatus st i s now) = st
   \<or> snd (transitionStatus st i s now)
       = st\<lparr>applications :=
              map (\<lambda>a. if app_id a = i then a\<lparr>app_status := s, app_updatedAt := now\<rparr> else a)
                (applications st)\<rparr>"
  using updateApplicationStatus_cases [of st i s now]
  by (auto simp add: transitionStatus_def split: option.splits)

lemma rewritten_rows_others:
  "filter (\<lambda>a. app_id a \<noteq> i)
     (map (\<lambda>a. if app_id a = i then a\<lparr>app_status := s, app_updatedAt := now\<rparr> else a) xs)
   = filter (\<lambda>a. app_id a \<noteq> i) xs"
  by (induction xs) auto

lemma rewritten_rows_untouched:
  "map untouched_columns
     (map (\<lambda>a. if app_id a = i then a\<lparr>app_status := s, app_updatedAt := now\<rparr> else a) xs)
   = map untouched_columns xs"
  by (induction xs) (auto simp add: untouched_columns_def)

text \<open>
  C6. A status transition changes nothing but the \<open>status\<close> and \<open>updatedAt\<close> columns of
  the application with the requested id: position by position, every application keeps
  its id, jobId, candidateId, matchScore, aiAnalysis, appliedAt and notes; the
  applications with another id are the same rows as before; and the interviews table
  (like the jobs and candidates tables) is the same as before.
\<close>

theorem transitionStatus_frame:
  "map untouched_columns (applications (snd (transitionStatus st i s now)))
     = map untouched_columns (applications st)
   \<and> filter (\<lambda>a. app_id a \<noteq> i) (applications (snd (transitionStatus st i s now)))
     = filter (\<lambda>a. app_id a \<noteq> i) (applications st)
   \<and> interviews (snd (transitionStatus st i s now)) = interviews st
   \<and> jobs (snd (transitionStatus st i s now)) = jobs st
   \<and> candidates (snd (transitionStatus st i s now)) = candidates st"
  using transitionStatus_store [of st i s now]
  by (elim disjE) (simp_all add: rewritten_rows_others rewritten_rows_untouched del: map_map)

section \<open>The stored match score\<close>






section \<open>One candidate per email\<close>

lemma handle_candidates:
  "candidates (snd (handle st r)) = candidates st
   \<or> (\<exists>c. candidates (snd (handle st r)) = candidates st @ [c]
         \<and> cand_email c \<notin> set (map cand_email (candidates st)))"
proof (cases r)
  case (Submit req env)
  with upload_candidate_tables [of st req env] show ?thesis by auto
next
  case (Transition i s now)
  with transitionStatus_store [of st i s now] show ?thesis
    by auto
qed

lemma run_distinct_emails:
  "distinct (map cand_email (candidates st))
   \<Longrightarrow> distinct (map cand_email (candidates (run st rs)))"
proof (induction rs arbitrary: st)
  case Nil
  then show ?case by simp
next
  case (Cons r rs)
  from handle_candidates [of st r] Cons.prems
  have "distinct (map cand_email (candidates (snd (handle st r))))"
    by auto
  then show ?case using Cons.IH by simp
qed

lemma upload_existing_email_candidates:
  assumes "req_email req \<in> set (map cand_email (candidates st))"
  shows "candidates (snd (upload_candidate st req env)) = candidates st"
  using upload_candidate_tables [of st req env] assms by auto

text \<open>A second submission with the email of a stored candidate and the id of another
  stored job need not create an application: after Jane's submission for job J1, her
  submission for job J2 with a DOCX file that the extraction library cannot read is
  answered 400, and one with a match score that is not a number is answered 500; the
  only application stored is the one for J1.\<close>

theorem second_upload_without_application:
  "map cand_email (candidates (run two_jobs [hd jane_twice])) = [''jane@x.com'']
   \<and> map job_id (jobs (run two_jobs [hd jane_twice])) = [''J1'', ''J2'']
   \<and> fst (upload_candidate (run two_jobs [hd jane_twice]) (jane ''.docx'' ''J2'')
            (world Throws analysed (scored 40) ''c2'' ''a2'' 6))
       = ErrorResponse 400 ''Failed to parse resume file''
   \<and> map app_jobId (applications (snd (upload_candidate (run two_jobs [hd jane_twice])
            (jane ''.docx'' ''J2'') (world Throws analysed (scored 40) ''c2'' ''a2'' 6))))
       = [''J1'']
   \<and> fst (upload_candidate (run two_jobs [hd jane_twice]) (jane ''.docx'' ''J2'')
            (world (Returns ''cv'') analysed
               (ParsedJson \<lparr> score = NaN, matchedSkills = [], missingSkills = [],
                              reasoning = ''none'' \<rparr>) ''c2'' ''a2'' 6))
       = DatabaseError InvalidInteger
   \<and> map app_jobId (applications (snd (upload_candidate (run two_jobs [hd jane_twice])
            (jane ''.docx'' ''J2'')
            (world (Returns ''cv'') analysed
               (ParsedJson \<lparr> score = NaN, matchedSkills = [], missingSkills = [],
                              reasoning = ''none'' \<rparr>) ''c2'' ''a2'' 6))))
       = [''J1'']"
  by (simp add: jane_twice_def example_defs upload_defs)

text \<open>
  C7 (amended). Whatever requests are handled one after another, a store whose candidates
  have pairwise different emails keeps that property. A submission whose email is the
  email of a stored candidate leaves the candidates table as it is. When the emails in the
  store are pairwise different and such a submission runs to its end (file accepted by
  multer, required fields present, email and job id text the database accepts, text
  extracted, job id the id of a stored job, unused application id, a match result the
  database can store), it is answered 201 with the stored candidate of that email, and
  the one application it appends refers to that candidate and to the requested job.
\<close>

theorem one_candidate_per_email:
  "(distinct (map cand_email (candidates st))
      \<longrightarrow> distinct (map cand_email (candidates (run st rs))))
   \<and> (req_email req \<in> set (map cand_email (candidates st))
      \<longrightarrow> candidates (snd (upload_candidate st req env)) = candidates st)
   \<and> (distinct (map cand_email (candidates st))
       \<and> c0 \<in> set (candidates st) \<and> cand_email c0 = req_email req
       \<and> req_file req = Some f
       \<and> req_name req \<noteq> [] \<and> req_email req \<noteq> [] \<and> req_jobId req \<noteq> []
       \<and> pg_text (req_email req) \<and> pg_text (req_jobId req)
       \<and> extract_resume (file_ext f) (env_extraction env) \<noteq> Throws
       \<and> req_jobId req \<in> set (map job_id (jobs st))
       \<and> env_application_uuid env \<notin> set (map app_id (applications st))
       \<and> (\<forall>m. env_match env = ParsedJson m
              \<longrightarrow> pg_integer (Math_round (score m)) \<noteq> None \<and> match_analysis_text m)
      \<longrightarrow> (\<exists>a an. upload_candidate st req env
                     = (UploadCreated c0 a an, st\<lparr>applications := applications st @ [a]\<rparr>)
                 \<and> app_candidateId a = cand_id c0
                 \<and> app_jobId a = req_jobId req
                 \<and> app_status a = ''applied''))"
proof (intro conjI impI)
  assume "distinct (map cand_email (candidates st))"
  then show "distinct (map cand_email (candidates (run st rs)))"
    by (rule run_distinct_emails)
next
  assume "req_email req \<in> set (map cand_email (candidates st))"
  then show "candidates (snd (upload_candidate st req env)) = candidates st"
    by (rule upload_existing_email_candidates)
next
  assume h: "distinct (map cand_email (candidates st))
       \<and> c0 \<in> set (candidates st) \<and> cand_email c0 = req_email req
       \<and> req_file req = Some f
       \<and> req_name req \<noteq> [] \<and> req_email req \<noteq> [] \<and> req_jobId req \<noteq> []
       \<and> pg_text (req_email req) \<and> pg_text (req_jobId req)
       \<and> extract_resume (file_ext f) (env_extraction env) \<noteq> Throws
       \<and> req_jobId req \<in> set (map job_id (jobs st))
       \<and> env_application_uuid env \<notin> set (map app_id (applications st))
       \<and> (\<forall>m. env_match env = ParsedJson m
              \<longrightarrow> pg_integer (Math_round (score m)) \<noteq> None \<and> match_analysis_text m)"
  then obtain rtext where
    extr: "extract_resume (file_ext f) (env_extraction env) = Returns rtext"
    by (cases "extract_resume (file_ext f) (env_extraction env)") auto
  from h have d: "distinct (map cand_email (candidates st))"
    and c0: "c0 \<in> set (candidates st)" "cand_email c0 = req_email req"
    by simp_all
  have found: "getCandidateByEmail st (req_email req) = Some c0"
    using find_distinct_key [OF d c0(1)] c0(2) by (simp add: getCandidateByEmail_def)
  have known: "req_email req \<in> set (map cand_email (candidates st))"
    using c0 by force
  have fresh_c: "req_email req \<notin> set (map cand_email (candidates st))
                  \<Longrightarrow> env_candidate_uuid env \<notin> set (map cand_id (candidates st))
                    \<and> candidate_text (candidate_values req f rtext
                          (analyse_or_placeholder rtext (env_analysis env)))"
    using known by simp
  have storable: "env_match env = ParsedJson m
                  \<Longrightarrow> pg_integer (Math_round (score m)) \<noteq> None \<and> match_analysis_text m" for m
    using h by blast
  from h have pre: "req_file req = Some f"
    "req_name req \<noteq> []" "req_email req \<noteq> []" "req_jobId req \<noteq> []"
    "pg_text (req_email req)" "pg_text (req_jobId req)"
    "req_jobId req \<in> set (map job_id (jobs st))"
    "env_application_uuid env \<notin> set (map app_id (applications st))"
    by simp_all
  from upload_candidate_created [OF pre(1-6) extr pre(7,8) fresh_c storable]
  obtain c a st1 where
    up: "upload_candidate st req env
             = (UploadCreated c a (analyse_or_placeholder rtext (env_analysis env)),
                st1\<lparr>applications := applications st1 @ [a]\<rparr>)"
    and cand: "(getCandidateByEmail st (req_email req) = Some c \<and> st1 = st)
            \<or> getCandidateByEmail st (req_email req) = None"
    and a: "app_jobId a = req_jobId req" "app_candidateId a = cand_id c"
       "app_status a = ''applied''"
    by blast
  from cand found have "c = c0" "st1 = st" by auto
  with up a
  have "upload_candidate st req env
          = (UploadCreated c0 a (analyse_or_placeholder rtext (env_analysis env)),
             st\<lparr>applications := applications st @ [a]\<rparr>)
        \<and> app_candidateId a = cand_id c0 \<and> app_jobId a = req_jobId req
        \<and> app_status a = ''applied''"
    by simp
  then show "\<exists>a an. upload_candidate st req env
                     = (UploadCreated c0 a an, st\<lparr>applications := applications st @ [a]\<rparr>)
                 \<and> app_candidateId a = cand_id c0
                 \<and> app_jobId a = req_jobId req
                 \<and> app_status a = ''applied''"
    by blast
qed

theorem one_candidate_per_email_witness:
  "distinct (map cand_email (candidates (run two_jobs jane_twice)))
   \<and> candidates (run two_jobs jane_twice) = [jane_candidate]
   \<and> map (\<lambda>a. (app_jobId a, app_candidateId a)) (applications (run two_jobs jane_twice))
       = [(''J1'', ''c1''), (''J2'', ''c1'')]"
proof -
  let ?req = "jane ''.docx'' ''J2''"
  let ?env = "world (Returns ''cv'') analysed (scored 40) ''c2'' ''a2'' 6"
  let ?f = "jane_file ''.docx''"
  define st1 where "st1 = run two_jobs [hd jane_twice]"
  have cands: "candidates st1 = [jane_candidate]"
    and apps: "map (\<lambda>a. (app_jobId a, app_candidateId a)) (applications st1)
                 = [(''J1'', ''c1'')]"
    and ids: "map app_id (applications st1) = [''a1'']"
    and js: "jobs st1 = jobs two_jobs"
    by (simp_all add: st1_def jane_twice_def jane_candidate_def example_defs upload_defs)
  have run2: "run two_jobs jane_twice = snd (upload_candidate st1 ?req ?env)"
    by (simp add: st1_def jane_twice_def)
  have h: "distinct (map cand_email (candidates st1))
       \<and> jane_candidate \<in> set (candidates st1) \<and> cand_email jane_candidate = req_email ?req
       \<and> req_file ?req = Some ?f
       \<and> req_name ?req \<noteq> [] \<and> req_email ?req \<noteq> [] \<and> req_jobId ?req \<noteq> []
       \<and> pg_text (req_email ?req) \<and> pg_text (req_jobId ?req)
       \<and> extract_resume (file_ext ?f) (env_extraction ?env) \<noteq> Throws
       \<and> req_jobId ?req \<in> set (map job_id (jobs st1))
       \<and> env_application_uuid ?env \<notin> set (map app_id (applications st1))
       \<and> (\<forall>m. env_match ?env = ParsedJson m
              \<longrightarrow> pg_integer (Math_round (score m)) \<noteq> None \<and> match_analysis_text m)"
    using cands ids js
    by (auto simp add: jane_candidate_def example_defs jane_file_def pg_text_def
          req_file_def upload_single_def fileFilter_def allowedTypes_def fileSize_def
          extract_resume_def extractTextFromDOCX_def match_analysis_text_def
          pg_integer_def Math_round_def)
  have d: "distinct (map cand_email (candidates two_jobs))"
    by (simp add: two_jobs_def)
  from one_candidate_per_email [of two_jobs jane_twice ?req ?env jane_candidate ?f] d
  have one: "distinct (map cand_email (candidates (run two_jobs jane_twice)))"
    by blast
  from one_candidate_per_email [of st1 "[]" ?req ?env jane_candidate ?f] h
  obtain a an where
    "upload_candidate st1 ?req ?env
       = (UploadCreated jane_candidate a an, st1\<lparr>applications := applications st1 @ [a]\<rparr>)"
    "app_candidateId a = cand_id jane_candidate" "app_jobId a = req_jobId ?req"
    by blast
  with run2 cands apps
  have "candidates (run two_jobs jane_twice) = [jane_candidate]
   \<and> map (\<lambda>a. (app_jobId a, app_candidateId a)) (applications (run two_jobs jane_twice))
       = [(''J1'', ''c1''), (''J2'', ''c1'')]"
    by (simp add: jane_candidate_def jane_def)
  with one show ?thesis by simp
qed

section \<open>Which status values are stored\<close>

lemma find_rewritten_row:
  "find (\<lambda>a. app_id a = i)
     (map (\<lambda>a. if app_id a = i then a\<lparr>app_status := s, app_updatedAt := now\<rparr> else a) xs)
   = map_option (\<lambda>a. a\<lparr>app_status := s, app_updatedAt := now\<rparr>)
       (find (\<lambda>a. app_id a = i) xs)"
  by (induction xs) auto

lemma rewritten_rows_statuses:
  "set (map app_status
     (map (\<lambda>a. if app_id a = i then a\<lparr>app_status := s, app_updatedAt := now\<rparr> else a) xs))
   \<subseteq> insert s (set (map app_status xs))"
  by (induction xs) auto

lemma pg_text_statuses: "s \<in> set statuses \<Longrightarrow> pg_text s \<and> s \<noteq> []"
  by (auto simp add: statuses_def pg_text_def)

lemma transitionStatus_found:
  assumes "getApplicationById st i = Some a0" and "s \<noteq> []" and "pg_text s"
  shows "transitionStatus st i s now
           = (StatusUpdated (a0\<lparr>app_status := s, app_updatedAt := now\<rparr>),
              st\<lparr>applications :=
                   map (\<lambda>a. if app_id a = i then a\<lparr>app_status := s, app_updatedAt := now\<rparr> else a)
                     (applications st)\<rparr>)"
proof -
  have "i \<in> set (map app_id (applications st))"
    using assms(1) find_Some_in [of app_id i "applications st" a0]
    by (force simp add: getApplicationById_def)
  with assms show ?thesis
    by (simp add: transitionStatus_def updateApplicationStatus_def Let_def
          getApplicationById_def find_rewritten_row del: map_map)
qed

lemma handle_statuses:
  "set (map app_status (applications (snd (handle st r))))
     \<subseteq> set (map app_status (applications st)) \<union> {''applied''} \<union> set (requested_statuses [r])"
proof (cases r)
  case (Submit req env)
  with upload_candidate_tables [of st req env] show ?thesis
    by auto
next
  case (Transition i s now)
  with transitionStatus_store [of st i s now]
    rewritten_rows_statuses [where i = i and s = s and now = now and xs = "applications st"]
  show ?thesis
    by (auto simp add: requested_statuses_def simp del: map_map)
qed

lemma requested_statuses_Cons:
  "set (requested_statuses (r # rs)) = set (requested_statuses [r]) \<union> set (requested_statuses rs)"
  by (simp add: requested_statuses_def)

lemma run_statuses:
  "set (map app_status (applications (run st rs)))
     \<subseteq> set (map app_status (applications st)) \<union> {''applied''} \<union> set (requested_statuses rs)"
proof (induction rs arbitrary: st)
  case Nil
  then show ?case by auto
next
  case (Cons r rs)
  from Cons.IH [of "snd (handle st r)"] handle_statuses [of st r]
  show ?case
    unfolding requested_statuses_Cons [of r rs] by (simp del: set_map) blast
qed

text \<open>A status outside the six literals is stored as it is.\<close>

theorem transitionStatus_stores_unlisted_status:
  "''archived'' \<notin> set statuses
   \<and> status_code (fst (transitionStatus one_application ''a1'' ''archived'' 9)) = 200
   \<and> map app_status (applications (snd (transitionStatus one_application ''a1'' ''archived'' 9)))
       = [''archived'']"
  by (simp add: statuses_def transitionStatus_def updateApplicationStatus_def status_code_def
        pg_text_def Let_def example_defs)

text \<open>
  C4 (amended). A submission stores the status \<open>applied\<close>, and a transition stores no
  string but the one it is given: after any sequence of submissions and transitions,
  every stored status is a status stored before, \<open>applied\<close>, or the string carried by
  one of the transition requests. So when every status stored before and every string
  carried by a transition request is one of the six literals, every stored status is one
  of the six literals.
\<close>

theorem statuses_stay_listed_when_requests_are:
  "set (map app_status (applications (run st rs)))
     \<subseteq> set (map app_status (applications st)) \<union> {''applied''} \<union> set (requested_statuses rs)
   \<and> (set (map app_status (applications st)) \<subseteq> set statuses
       \<and> set (requested_statuses rs) \<subseteq> set statuses
     \<longrightarrow> set (map app_status (applications (run st rs))) \<subseteq> set statuses)"
proof -
  have "''applied'' \<in> set statuses" by (simp add: statuses_def)
  with run_statuses [of st rs] show ?thesis
    by (simp del: set_map) blast
qed

theorem statuses_stay_listed_when_requests_are_witness:
  "map app_status (applications (run one_application hire_after_screening))
     = [''hired'', ''applied'']
   \<and> requested_statuses hire_after_screening = [''screening'', ''hired'']
   \<and> set (map app_status (applications (run one_application hire_after_screening)))
       \<subseteq> set statuses"
proof -
  have h1: "set (map app_status (applications one_application)) \<subseteq> set statuses
      \<and> set (requested_statuses hire_after_screening) \<subseteq> set statuses"
    by (simp add: statuses_def requested_statuses_def hire_after_screening_def example_defs)
  from statuses_stay_listed_when_requests_are [of one_application hire_after_screening] h1
  have "set (map app_status (applications (run one_application hire_after_screening)))
       \<subseteq> set statuses"
    by blast
  moreover have "map app_status (applications (run one_application hire_after_screening))
     = [''hired'', ''applied'']"
    by (simp add: hire_after_screening_def transitionStatus_def updateApplicationStatus_def
          example_defs upload_defs)
  moreover have "requested_statuses hire_after_screening = [''screening'', ''hired'']"
    by (simp add: requested_statuses_def hire_after_screening_def)
  ultimately show ?thesis by simp
qed

section \<open>Repeating a status transition\<close>

lemma rewrite_rows_twice:
  "map (\<lambda>a. if app_id a = i then a\<lparr>app_status := s, app_updatedAt := t2\<rparr> else a)
     (map (\<lambda>a. if app_id a = i then a\<lparr>app_status := s, app_updatedAt := t1\<rparr> else a) xs)
   = map (\<lambda>a. if app_id a = i then a\<lparr>app_status := s, app_updatedAt := t2\<rparr> else a) xs"
  by (induction xs) auto

lemma rewrite_rows_clock:
  "map (\<lambda>a. a\<lparr>app_updatedAt := 0\<rparr>)
     (map (\<lambda>a. if app_id a = i then a\<lparr>app_status := s, app_updatedAt := t2\<rparr> else a) xs)
   = map (\<lambda>a. a\<lparr>app_updatedAt := 0\<rparr>)
     (map (\<lambda>a. if app_id a = i then a\<lparr>app_status := s, app_updatedAt := t1\<rparr> else a) xs)"
  by (induction xs) auto

text \<open>The second of two equal transitions changes \<open>updatedAt\<close>.\<close>

theorem transitionStatus_twice_moves_updatedAt:
  "map app_updatedAt (applications (snd (transitionStatus
       (snd (transitionStatus one_application ''a1'' ''hired'' 10)) ''a1'' ''hired'' 20))) = [20]
   \<and> map app_updatedAt (applications (snd (transitionStatus one_application ''a1'' ''hired'' 10)))
       = [10]"
  by (simp add: transitionStatus_def updateApplicationStatus_def pg_text_def Let_def
        example_defs)

text \<open>
  C5 (amended). A transition of an existing application to any of the six literals
  succeeds, whatever status the application has (so also out of \<open>hired\<close> or
  \<open>rejected\<close>). Applying the same transition twice, at the clock readings \<open>t1\<close> and then
  \<open>t2\<close>, gives the response and the store that the single transition at \<open>t2\<close> gives; next
  to the single transition at \<open>t1\<close>, only the \<open>updatedAt\<close> column differs.
\<close>

theorem transitionStatus_succeeds_and_repeats:
  assumes "getApplicationById st i = Some a0" and "s \<in> set statuses"
  shows "transitionStatus st i s t1
           = (StatusUpdated (a0\<lparr>app_status := s, app_updatedAt := t1\<rparr>),
              snd (transitionStatus st i s t1))
       \<and> getApplicationById (snd (transitionStatus st i s t1)) i
           = Some (a0\<lparr>app_status := s, app_updatedAt := t1\<rparr>)
       \<and> transitionStatus (snd (transitionStatus st i s t1)) i s t2
           = transitionStatus st i s t2
       \<and> map (\<lambda>a. a\<lparr>app_updatedAt := 0\<rparr>)
             (applications (snd (transitionStatus (snd (transitionStatus st i s t1)) i s t2)))
           = map (\<lambda>a. a\<lparr>app_updatedAt := 0\<rparr>) (applications (snd (transitionStatus st i s t1)))
       \<and> jobs (snd (transitionStatus (snd (transitionStatus st i s t1)) i s t2))
           = jobs (snd (transitionStatus st i s t1))
       \<and> candidates (snd (transitionStatus (snd (transitionStatus st i s t1)) i s t2))
           = candidates (snd (transitionStatus st i s t1))
       \<and> interviews (snd (transitionStatus (snd (transitionStatus st i s t1)) i s t2))
           = interviews (snd (transitionStatus st i s t1))"
proof -
  let ?rows = "\<lambda>t xs. map (\<lambda>a. if app_id a = i then a\<lparr>app_status := s, app_updatedAt := t\<rparr>
                                else a) xs"
  let ?st1 = "st\<lparr>applications := ?rows t1 (applications st)\<rparr>"
  from pg_text_statuses [OF assms(2)] have ne: "s \<noteq> []" and tx: "pg_text s" by simp_all
  have first: "transitionStatus st i s t
           = (StatusUpdated (a0\<lparr>app_status := s, app_updatedAt := t\<rparr>),
              st\<lparr>applications := ?rows t (applications st)\<rparr>)" for t
    by (rule transitionStatus_found [OF assms(1) ne tx])
  have found1: "getApplicationById ?st1 i = Some (a0\<lparr>app_status := s, app_updatedAt := t1\<rparr>)"
    using assms(1) by (simp add: getApplicationById_def find_rewritten_row del: map_map)
  have second: "transitionStatus ?st1 i s t2
           = (StatusUpdated (a0\<lparr>app_status := s, app_updatedAt := t2\<rparr>),
              st\<lparr>applications := ?rows t2 (applications st)\<rparr>)"
    using transitionStatus_found [OF found1 ne tx, of t2]
    by (simp add: rewrite_rows_twice del: map_map)
  have clock: "map (\<lambda>a. a\<lparr>app_updatedAt := 0\<rparr>) (?rows t2 (applications st))
                 = map (\<lambda>a. a\<lparr>app_updatedAt := 0\<rparr>) (?rows t1 (applications st))"
    by (rule rewrite_rows_clock)
  show ?thesis
    using found1 clock by (simp add: first second del: map_map)
qed

theorem transitionStatus_succeeds_and_repeats_witness:
  "status_code (fst (transitionStatus rejected_application ''a1'' ''interview'' 10)) = 200
   \<and> map app_status (applications (snd (transitionStatus rejected_application
         ''a1'' ''interview'' 10))) = [''interview'']
   \<and> transitionStatus (snd (transitionStatus rejected_application ''a1'' ''interview'' 10))
         ''a1'' ''interview'' 20
       = transitionStatus rejected_application ''a1'' ''interview'' 20"
proof -
  have h1: "getApplicationById rejected_application ''a1''
              = Some (example_application ''a1'' ''J1'' ''c1'' ''rejected'' None)"
    by (simp add: getApplicationById_def rejected_application_def example_defs)
  have h2: "''interview'' \<in> set statuses"
    by (simp add: statuses_def)
  note r = transitionStatus_succeeds_and_repeats [OF h1 h2, of 10 20]
  have "fst (transitionStatus rejected_application ''a1'' ''interview'' 10)
          = fst (StatusUpdated (example_application ''a1'' ''J1'' ''c1'' ''rejected'' None
                              \<lparr>app_status := ''interview'', app_updatedAt := 10\<rparr>),
                 snd (transitionStatus rejected_application ''a1'' ''interview'' 10))"
    using r [THEN conjunct1] by (rule arg_cong)
  then have "status_code (fst (transitionStatus rejected_application ''a1'' ''interview'' 10))
               = 200"
    by (simp only: fst_conv status_code_def response.case)
  moreover note r [THEN conjunct2, THEN conjunct2, THEN conjunct1]
  moreover have "map app_status (applications (snd (transitionStatus rejected_application
         ''a1'' ''interview'' 10))) = [''interview'']"
    by (simp add: transitionStatus_def updateApplicationStatus_def pg_text_def Let_def
          rejected_application_def example_defs)
  ultimately show ?thesis by simp
qed

section \<open>The pipeline board\<close>

lemma displayed_groups_unfold:
  "displayed_groups (Some xs) =
     [(''applied'', filter (\<lambda>app. awd_status app = ''applied'') xs),
      (''screening'', filter (\<lambda>app. awd_status app = ''screening'') xs),
      (''interview'', filter (\<lambda>app. awd_status app = ''interview'') xs),
      (''offer'', filter (\<lambda>app. awd_status app = ''offer'') xs),
      (''hired'', filter (\<lambda>app. awd_status app = ''hired'') xs)]"
  by (simp add: displayed_groups_def applicationsByStatus_def statusColumns_def)

lemma displayed_groups_cover_listed_columns:
  "mset (concat (map snd (displayed_groups (Some xs))))
     = mset (filter (\<lambda>app. awd_status app \<in> set (map col_key statusColumns)) xs)"
  unfolding displayed_groups_unfold
  by (induction xs) (auto simp add: statusColumns_def)

text \<open>An application whose status is \<open>rejected\<close> is a row of the pipeline view and
  stands in none of the displayed groups.\<close>

theorem pipeline_board_omits_rejected:
  "map awd_status (pipeline rejected_application) = [''rejected'']
   \<and> displayed_groups (Some (pipeline rejected_application))
       = [(''applied'', []), (''screening'', []), (''interview'', []), (''offer'', []),
          (''hired'', [])]"
  by (simp add: displayed_groups_unfold pipeline_def getAllApplications_def getAllJobs_def
        getAllCandidates_def orderBy_desc_def Map_by_def or_else_def rejected_application_def
        example_defs)

text \<open>
  C3 (amended). The board has the five columns applied, screening, interview, offer and
  hired, each once. A group holds exactly the applications whose status is its column's
  key, in the order of the list; taken together the groups hold each application whose
  status is one of the five keys exactly as often as the list does, and no other
  application: one whose status is \<open>rejected\<close>, or any other string, is in no group.
\<close>

theorem displayed_groups_partition_listed_statuses:
  "map fst (displayed_groups (Some xs)) = map col_key statusColumns
   \<and> distinct (map col_key statusColumns)
   \<and> (\<forall>g \<in> set (displayed_groups (Some xs)).
         snd g = filter (\<lambda>app. awd_status app = fst g) xs)
   \<and> mset (concat (map snd (displayed_groups (Some xs))))
       = mset (filter (\<lambda>app. awd_status app \<in> set (map col_key statusColumns)) xs)
   \<and> (awd_status app \<notin> set (map col_key statusColumns)
        \<longrightarrow> app \<notin> set (concat (map snd (displayed_groups (Some xs)))))"
proof -
  have "app \<notin> set (concat (map snd (displayed_groups (Some xs))))"
    if "awd_status app \<notin> set (map col_key statusColumns)"
  proof -
    have "set (concat (map snd (displayed_groups (Some xs))))
            = set_mset (mset (concat (map snd (displayed_groups (Some xs)))))"
      by simp
    also have "\<dots> = set (filter (\<lambda>app. awd_status app \<in> set (map col_key statusColumns)) xs)"
      by (simp only: displayed_groups_cover_listed_columns set_mset_mset)
    finally show ?thesis using that by simp
  qed
  then show ?thesis
    by (simp add: displayed_groups_cover_listed_columns)
       (simp add: displayed_groups_unfold statusColumns_def)
qed

theorem displayed_groups_partition_listed_statuses_witness:
  "displayed_groups (Some [board_row ''a1'' ''hired'', board_row ''a2'' ''rejected'',
                           board_row ''a3'' ''applied'', board_row ''a4'' ''hired''])
     = [(''applied'', [board_row ''a3'' ''applied'']), (''screening'', []),
        (''interview'', []), (''offer'', []),
        (''hired'', [board_row ''a1'' ''hired'', board_row ''a4'' ''hired''])]
   \<and> board_row ''a2'' ''rejected''
       \<notin> set (concat (map snd (displayed_groups
             (Some [board_row ''a1'' ''hired'', board_row ''a2'' ''rejected'',
                    board_row ''a3'' ''applied'', board_row ''a4'' ''hired'']))))"
proof -
  let ?xs = "[board_row ''a1'' ''hired'', board_row ''a2'' ''rejected'',
              board_row ''a3'' ''applied'', board_row ''a4'' ''hired'']"
  have "awd_status (board_row ''a2'' ''rejected'') \<notin> set (map col_key statusColumns)"
    by (simp add: board_row_def statusColumns_def)
  with displayed_groups_partition_listed_statuses [of ?xs "board_row ''a2'' ''rejected''"]
  have "board_row ''a2'' ''rejected''
       \<notin> set (concat (map snd (displayed_groups (Some ?xs))))"
    by blast
  moreover have "displayed_groups (Some ?xs)
     = [(''applied'', [board_row ''a3'' ''applied'']), (''screening'', []),
        (''interview'', []), (''offer'', []),
        (''hired'', [board_row ''a1'' ''hired'', board_row ''a4'' ''hired''])]"
    by (simp add: displayed_groups_unfold board_row_def)
  ultimately show ?thesis by simp
qed

section \<open>Ranking of candidates\<close>



















end
